theory Spec2Isabelle
  imports Main
begin

section \<open>The Roads API client of roads.go\<close>

text \<open>
  The file holds two operations, \<open>SnapToRoad\<close> and \<open>SpeedLimits\<close>. Each validates its
  request, starts a goroutine that builds the query, asks the client for the signed query
  string, performs the HTTP call and decodes the JSON body, and meanwhile waits in a
  \<open>select\<close> for either the goroutine's result or the context's \<open>Done\<close> channel.

  Go returns a pair \<open>(*Response, error)\<close>; the model keeps both components
  (\<open>'r option \<times> error option\<close>, \<open>None\<close> for \<open>nil\<close>), since the code can return both non-nil.
  What the code calls but does not define (the client's \<open>generateAuthQuery\<close> and \<open>httpDo\<close>,
  \<open>LatLng.String\<close>, \<open>http.NewRequest\<close>, \<open>URL.Query\<close>, \<open>json.Decoder.Decode\<close>) is a
  parameter: a field of the records \<open>Client\<close> and \<open>Env\<close>. Calls to the client's two
  methods are recorded in a list of effects, so that "no HTTP call" is a statement about
  that list.
\<close>

subsection \<open>Errors and url.Values\<close>

datatype error = errors_New string | json_UnmarshalTypeError string string

text \<open>\<open>type Values map[string][]string\<close>\<close>

type_synonym Values = "string \<rightharpoonup> string list"

text \<open>\<open>v[key]\<close>: the nil slice for a key that is absent.\<close>

definition Values_index :: "Values \<Rightarrow> string \<Rightarrow> string list" where
  "Values_index v key = (case v key of None \<Rightarrow> [] | Some vs \<Rightarrow> vs)"

text \<open>\<open>func (v Values) Set(key, value string) { v[key] = []string{value} }\<close>\<close>

definition Values_Set :: "Values \<Rightarrow> string \<Rightarrow> string \<Rightarrow> Values" where
  "Values_Set v key val = v(key \<mapsto> [val])"

text \<open>\<open>func (v Values) Add(key, value string) { v[key] = append(v[key], value) }\<close>\<close>

definition Values_Add :: "Values \<Rightarrow> string \<Rightarrow> string \<Rightarrow> Values" where
  "Values_Add v key val = v(key \<mapsto> Values_index v key @ [val])"

text \<open>
  \<open>strings.Join(a, sep)\<close>: the empty string for no elements, otherwise the first element
  followed by \<open>sep\<close> and the next element, for each further element.
\<close>

definition strings_Join :: "string list \<Rightarrow> string \<Rightarrow> string" where
  "strings_Join a sep =
     (case a of [] \<Rightarrow> [] | s0 # rest \<Rightarrow> foldl (\<lambda>b s. b @ sep @ s) s0 rest)"

subsection \<open>Data model\<close>

text \<open>
  \<open>LatLng\<close> is declared outside roads.go: it is the type parameter \<open>'ll\<close>, and its
  \<open>String\<close> method a field of \<open>Env\<close>. \<open>float64\<close> is the type parameter \<open>'f\<close>.
  \<open>OriginalIndex *int\<close> is an \<open>int option\<close>.
\<close>

record 'll SnappedPoint =
  Location :: 'll
  OriginalIndex :: "int option"
  PlaceID :: string

record 'll SnapToRoadResponse =
  SnappedPoints :: "'ll SnappedPoint list"

type_synonym speedLimitUnit = string

definition SpeedLimitMPH :: speedLimitUnit where
  "SpeedLimitMPH = ''MPH''"

definition SpeedLimitKPH :: speedLimitUnit where
  "SpeedLimitKPH = ''KPH''"

record 'f SpeedLimit =
  PlaceID :: string
  SpeedLimit :: 'f
  Units :: speedLimitUnit

record ('ll, 'f) SpeedLimitsResponse =
  SpeedLimits :: "'f SpeedLimit list"
  SnappedPoints :: "'ll SnappedPoint list"

record 'll SnapToRoadRequest =
  Path :: "'ll list"
  Interpolate :: bool

record 'll SpeedLimitsRequest =
  Path :: "'ll list"
  PlaceID :: "string list"
  Units :: speedLimitUnit

subsection \<open>Collaborators\<close>

text \<open>
  The part of \<open>*http.Request\<close> the code touches: \<open>req.URL.Path\<close> is read,
  \<open>req.URL.RawQuery\<close> is assigned.
\<close>

record Request =
  Method :: string
  URL_String :: string
  URL_Path :: string
  URL_RawQuery :: string

text \<open>
  The client: its \<open>baseURL\<close> field and its two methods, which roads.go calls and
  another file defines.
\<close>

record 'body Client =
  baseURL :: string
  generateAuthQuery :: "string \<Rightarrow> Values \<Rightarrow> bool \<Rightarrow> error + string"
  httpDo :: "Request \<Rightarrow> error + 'body"

text \<open>
  What comes from outside the package: \<open>LatLng.String\<close>, \<open>http.NewRequest\<close> (it fails on a
  URL it cannot parse), \<open>req.URL.Query()\<close> (the values parsed from the URL's own query
  part), and \<open>json.NewDecoder(body).Decode(response)\<close>, which takes the response object
  the code allocated and gives back its contents after decoding, with the decoder's error.
\<close>

record ('ll, 'f, 'body) Env =
  LatLng_String :: "'ll \<Rightarrow> string"
  http_NewRequest :: "string \<Rightarrow> string \<Rightarrow> error + Request"
  URL_Query :: "Request \<Rightarrow> Values"
  Decode_SnapToRoadResponse ::
    "'body \<Rightarrow> 'll SnapToRoadResponse \<Rightarrow> 'll SnapToRoadResponse \<times> error option"
  Decode_SpeedLimitsResponse ::
    "'body \<Rightarrow> ('ll, 'f) SpeedLimitsResponse \<Rightarrow> ('ll, 'f) SpeedLimitsResponse \<times> error option"

text \<open>What a call does besides returning: the goroutine it starts and the calls to the
  client's methods, in order.\<close>

datatype effect =
  Go_worker
| Call_generateAuthQuery string Values bool
| Call_httpDo Request

fun is_httpDo :: "effect \<Rightarrow> bool" where
  "is_httpDo (Call_httpDo req) = True"
| "is_httpDo e = False"

fun is_generateAuthQuery :: "effect \<Rightarrow> bool" where
  "is_generateAuthQuery (Call_generateAuthQuery p q b) = True"
| "is_generateAuthQuery e = False"

text \<open>The queries handed to \<open>generateAuthQuery\<close>, in call order.\<close>

fun auth_queries :: "effect list \<Rightarrow> Values list" where
  "auth_queries [] = []"
| "auth_queries (Call_generateAuthQuery p q b # es) = q # auth_queries es"
| "auth_queries (e # es) = auth_queries es"

subsection \<open>doGetSnapToRoad (lines 56-91)\<close>

text \<open>Lines 57-60: the base URL, the client's own when it is set.\<close>

definition roads_baseURL :: "'body Client \<Rightarrow> string" where
  "roads_baseURL c =
     (if baseURL c \<noteq> '''' then baseURL c else ''https://roads.googleapis.com/'')"

text \<open>Lines 67-70 and 158-161: \<open>for _, e := range r.Path { p = append(p, e.String()) }\<close>\<close>

definition path_strings :: "('ll, 'f, 'body) Env \<Rightarrow> 'll list \<Rightarrow> string list" where
  "path_strings env path = foldl (\<lambda>p e. p @ [LatLng_String env e]) [] path"

text \<open>Lines 66-75: the query built on \<open>req.URL.Query()\<close>.\<close>

definition snapToRoadQuery ::
  "('ll, 'f, 'body) Env \<Rightarrow> Request \<Rightarrow> 'll SnapToRoadRequest \<Rightarrow> Values" where
  "snapToRoadQuery env req r =
     (let q = URL_Query env req;
          p = path_strings env (SnapToRoadRequest.Path r);
          q = Values_Set q ''path'' (strings_Join p ''|'');
          q = (if Interpolate r then Values_Set q ''interpolate'' ''true'' else q)
      in q)"

definition doGetSnapToRoad ::
  "('ll, 'f, 'body) Env \<Rightarrow> 'body Client \<Rightarrow> 'll SnapToRoadRequest \<Rightarrow>
     ('ll SnapToRoadResponse option \<times> error option) \<times> effect list" where
  "doGetSnapToRoad env c r =
     (case http_NewRequest env ''GET'' (roads_baseURL c @ ''/v1/snapToRoads'') of
        Inl err \<Rightarrow> ((None, Some err), [])
      | Inr req \<Rightarrow>
          let q = snapToRoadQuery env req r;
              auth = Call_generateAuthQuery (URL_Path req) q False
          in (case generateAuthQuery c (URL_Path req) q False of
                Inl err \<Rightarrow> ((None, Some err), [auth])
              | Inr query \<Rightarrow>
                  let req = req\<lparr>URL_RawQuery := query\<rparr> in
                  (case httpDo c req of
                     Inl err \<Rightarrow> ((None, Some err), [auth, Call_httpDo req])
                   | Inr body \<Rightarrow>
                       (case Decode_SnapToRoadResponse env body \<lparr>SnapToRoadResponse.SnappedPoints = []\<rparr> of
                          (response, err) \<Rightarrow> ((Some response, err), [auth, Call_httpDo req])))))"

subsection \<open>doGetSpeedLimits (lines 146-187)\<close>

text \<open>Lines 157-171.\<close>

definition speedLimitsQuery ::
  "('ll, 'f, 'body) Env \<Rightarrow> Request \<Rightarrow> 'll SpeedLimitsRequest \<Rightarrow> Values" where
  "speedLimitsQuery env req r =
     (let q = URL_Query env req;
          p = path_strings env (SpeedLimitsRequest.Path r);
          q = (if length p > 0 then Values_Set q ''path'' (strings_Join p ''|'') else q);
          q = foldl (\<lambda>q id. Values_Add q ''placeId'' id) q (SpeedLimitsRequest.PlaceID r);
          q = (if SpeedLimitsRequest.Units r \<noteq> ''''
               then Values_Set q ''units'' (SpeedLimitsRequest.Units r) else q)
      in q)"

definition doGetSpeedLimits ::
  "('ll, 'f, 'body) Env \<Rightarrow> 'body Client \<Rightarrow> 'll SpeedLimitsRequest \<Rightarrow>
     (('ll, 'f) SpeedLimitsResponse option \<times> error option) \<times> effect list" where
  "doGetSpeedLimits env c r =
     (case http_NewRequest env ''GET'' (roads_baseURL c @ ''/v1/speedLimits'') of
        Inl err \<Rightarrow> ((None, Some err), [])
      | Inr req \<Rightarrow>
          let q = speedLimitsQuery env req r;
              auth = Call_generateAuthQuery (URL_Path req) q False
          in (case generateAuthQuery c (URL_Path req) q False of
                Inl err \<Rightarrow> ((None, Some err), [auth])
              | Inr query \<Rightarrow>
                  let req = req\<lparr>URL_RawQuery := query\<rparr> in
                  (case httpDo c req of
                     Inl err \<Rightarrow> ((None, Some err), [auth, Call_httpDo req])
                   | Inr body \<Rightarrow>
                       (case Decode_SpeedLimitsResponse env body
                               \<lparr>SpeedLimitsResponse.SpeedLimits = [], SpeedLimitsResponse.SnappedPoints = []\<rparr> of
                          (response, err) \<Rightarrow> ((Some response, err), [auth, Call_httpDo req])))))"

subsection \<open>The select between the worker's result and ctx.Done()\<close>

text \<open>
  Lines 41-53 and 131-143: the caller makes an unbuffered channel, starts the worker, which
  computes its result and then sends it on the channel, and waits in
  \<open>select { case resp := <-chResult: ...; case <-ctx.Done(): ... }\<close>.

  A run is the order in which three things happen: the caller reaches the select, the
  worker reaches its send, the context's \<open>Done\<close> channel is closed. Go's select takes a
  case that can proceed; when both can, it takes either (\<open>pick\<close> says which); when none
  can, the caller blocks and the first case to become ready is taken. A run in which the
  send never happens stands for a worker that is still in its HTTP call.
\<close>

datatype sched_event = Select_reached | Worker_sends | Ctx_Done

datatype select_case = Case_chResult | Case_ctxDone

datatype 'a caller = Before_select | Blocked | Returned 'a

record 'a race =
  caller :: "'a caller"
  sender_waiting :: bool
  done_closed :: bool

definition race_init :: "'a race" where
  "race_init = \<lparr>caller = Before_select, sender_waiting = False, done_closed = False\<rparr>"

fun race_step :: "'a \<Rightarrow> 'a \<Rightarrow> select_case \<Rightarrow> 'a race \<Rightarrow> sched_event \<Rightarrow> 'a race" where
  "race_step worker cancelled pick s Worker_sends =
     (case caller s of
        Blocked \<Rightarrow> s\<lparr>caller := Returned worker\<rparr>
      | Before_select \<Rightarrow> s\<lparr>sender_waiting := True\<rparr>
      | Returned x \<Rightarrow> s\<lparr>sender_waiting := True\<rparr>)"
| "race_step worker cancelled pick s Ctx_Done =
     (case caller s of
        Blocked \<Rightarrow> s\<lparr>caller := Returned cancelled\<rparr>
      | Before_select \<Rightarrow> s\<lparr>done_closed := True\<rparr>
      | Returned x \<Rightarrow> s\<lparr>done_closed := True\<rparr>)"
| "race_step worker cancelled pick s Select_reached =
     (case caller s of
        Before_select \<Rightarrow>
          (if sender_waiting s \<and> done_closed s
           then s\<lparr>caller := Returned (case pick of Case_chResult \<Rightarrow> worker | Case_ctxDone \<Rightarrow> cancelled)\<rparr>
           else if sender_waiting s then s\<lparr>caller := Returned worker\<rparr>
           else if done_closed s then s\<lparr>caller := Returned cancelled\<rparr>
           else s\<lparr>caller := Blocked\<rparr>)
      | Blocked \<Rightarrow> s
      | Returned x \<Rightarrow> s)"

text \<open>What the caller has got back at the end of the run: \<open>None\<close> while it is still waiting.\<close>

definition select_race :: "'a \<Rightarrow> 'a \<Rightarrow> select_case \<Rightarrow> sched_event list \<Rightarrow> 'a option" where
  "select_race worker cancelled pick sched =
     (case caller (foldl (race_step worker cancelled pick) race_init sched) of
        Returned x \<Rightarrow> Some x
      | Before_select \<Rightarrow> None
      | Blocked \<Rightarrow> None)"

text \<open>The context: \<open>ctx.Err()\<close> once \<open>Done\<close> is closed.\<close>

record Context =
  Err :: error

text \<open>In the run, \<open>Done\<close> is closed before the worker has its result to send.\<close>

definition cancelled_first :: "sched_event list \<Rightarrow> bool" where
  "cancelled_first sched =
     (case dropWhile (\<lambda>e. e = Select_reached) sched of
        Ctx_Done # rest \<Rightarrow> True
      | Worker_sends # rest \<Rightarrow> False
      | Select_reached # rest \<Rightarrow> False
      | [] \<Rightarrow> False)"

subsection \<open>SnapToRoad (lines 35-54) and SpeedLimits (lines 125-144)\<close>

text \<open>
  The result is what the caller gets back in the run (\<open>None\<close>: it has not returned), with
  the effects of the call: none when validation fails, otherwise the worker and the calls
  the worker makes. The worker is not stopped when the caller returns first, so its calls
  are effects of the call in every run. The request is taken by value: the code's
  \<open>r *SnapToRoadRequest\<close> is assumed non-nil, and \<open>len(r.Path) == 0\<close> holds for a nil and for
  an empty slice alike.
\<close>

definition SnapToRoad ::
  "('ll, 'f, 'body) Env \<Rightarrow> 'body Client \<Rightarrow> Context \<Rightarrow> sched_event list \<Rightarrow> select_case \<Rightarrow>
     'll SnapToRoadRequest \<Rightarrow>
     ('ll SnapToRoadResponse option \<times> error option) option \<times> effect list" where
  "SnapToRoad env c ctx sched pick r =
     (if length (SnapToRoadRequest.Path r) = 0
      then (Some (None, Some (errors_New ''snapToRoad: You must specify a Path'')), [])
      else (case doGetSnapToRoad env c r of
              (resp, effects) \<Rightarrow>
                (select_race resp (None, Some (Err ctx)) pick sched, Go_worker # effects)))"

definition SpeedLimits ::
  "('ll, 'f, 'body) Env \<Rightarrow> 'body Client \<Rightarrow> Context \<Rightarrow> sched_event list \<Rightarrow> select_case \<Rightarrow>
     'll SpeedLimitsRequest \<Rightarrow>
     (('ll, 'f) SpeedLimitsResponse option \<times> error option) option \<times> effect list" where
  "SpeedLimits env c ctx sched pick r =
     (if length (SpeedLimitsRequest.Path r) = 0 \<and> length (SpeedLimitsRequest.PlaceID r) = 0
      then (Some (None, Some (errors_New ''speedLimits: You must specify a Path or PlaceID'')), [])
      else (case doGetSpeedLimits env c r of
              (resp, effects) \<Rightarrow>
                (select_race resp (None, Some (Err ctx)) pick sched, Go_worker # effects)))"

subsection \<open>Decoding a response body into the declared structs (lines 102-117)\<close>

text \<open>
  \<open>json.NewDecoder(resp.Body).Decode(response)\<close> reads one JSON value and stores it into the
  struct by the \<open>json:"..."\<close> tags of its fields. The scanner is not modelled: a body is
  either one the decoder cannot read a value from (a syntax error, an empty body), with the
  error it reports and nothing stored, or a JSON value. A number is kept as its literal.
\<close>

datatype json =
  JNull
| JBool bool
| JNumber string
| JString string
| JArray "json list"
| JObject "(string \<times> json) list"

datatype body = Unreadable error | Value json

text \<open>The decoder goes on after a value of the wrong type and reports the first such error.\<close>

definition first_error :: "error option \<Rightarrow> error option \<Rightarrow> error option" where
  "first_error saved e = (case saved of None \<Rightarrow> e | Some e0 \<Rightarrow> Some e0)"

text \<open>
  The field a member's key selects: the field tagged with exactly that key, otherwise the
  first field whose tag equals the key under case folding (\<open>casefold\<close>, a parameter).
\<close>

definition json_field :: "(string \<Rightarrow> string) \<Rightarrow> string list \<Rightarrow> string \<Rightarrow> string option" where
  "json_field casefold tags key =
     (if key \<in> set tags then Some key else find (\<lambda>t. casefold t = casefold key) tags)"

text \<open>\<open>strconv.ParseInt(s, 10, 64)\<close>: an optional sign and decimal digits, within 64 bits.\<close>

fun digits_value :: "string \<Rightarrow> nat \<Rightarrow> nat option" where
  "digits_value [] acc = Some acc"
| "digits_value (c # cs) acc =
     (if 48 \<le> (of_char c :: nat) \<and> (of_char c :: nat) \<le> 57
      then digits_value cs (10 * acc + (of_char c - 48))
      else None)"

definition strconv_ParseInt :: "string \<Rightarrow> int option" where
  "strconv_ParseInt s =
     (let neg = (s \<noteq> [] \<and> hd s = CHR ''-'');
          ds = (if s \<noteq> [] \<and> (hd s = CHR ''-'' \<or> hd s = CHR ''+'') then tl s else s)
      in if ds = [] then None
         else (case digits_value ds 0 of
                 None \<Rightarrow> None
               | Some n \<Rightarrow>
                   (let i = (if neg then - int n else int n)
                    in if - (2 ^ 63) \<le> i \<and> i < 2 ^ 63 then Some i else None)))"

text \<open>
  A value into a field of type \<open>*int\<close>: \<open>null\<close> sets the pointer to nil; anything else
  allocates the integer when the pointer is nil, and stores the number when its literal is
  an integer.
\<close>

definition allocated :: "int option \<Rightarrow> int option" where
  "allocated cur = (case cur of None \<Rightarrow> Some 0 | Some n \<Rightarrow> Some n)"

fun decode_int_ptr :: "json \<Rightarrow> int option \<Rightarrow> int option \<times> error option" where
  "decode_int_ptr JNull cur = (None, None)"
| "decode_int_ptr (JNumber s) cur =
     (case strconv_ParseInt s of
        Some n \<Rightarrow> (Some n, None)
      | None \<Rightarrow> (allocated cur, Some (json_UnmarshalTypeError (''number '' @ s) ''int'')))"
| "decode_int_ptr (JBool b) cur = (allocated cur, Some (json_UnmarshalTypeError ''bool'' ''int''))"
| "decode_int_ptr (JString s) cur = (allocated cur, Some (json_UnmarshalTypeError ''string'' ''int''))"
| "decode_int_ptr (JArray xs) cur = (allocated cur, Some (json_UnmarshalTypeError ''array'' ''int''))"
| "decode_int_ptr (JObject ms) cur = (allocated cur, Some (json_UnmarshalTypeError ''object'' ''int''))"

text \<open>A value into a field of type \<open>string\<close>: \<open>null\<close> leaves it as it is.\<close>

fun decode_string :: "json \<Rightarrow> string \<Rightarrow> string \<times> error option" where
  "decode_string JNull cur = (cur, None)"
| "decode_string (JString s) cur = (s, None)"
| "decode_string (JNumber s) cur = (cur, Some (json_UnmarshalTypeError ''number'' ''string''))"
| "decode_string (JBool b) cur = (cur, Some (json_UnmarshalTypeError ''bool'' ''string''))"
| "decode_string (JArray xs) cur = (cur, Some (json_UnmarshalTypeError ''array'' ''string''))"
| "decode_string (JObject ms) cur = (cur, Some (json_UnmarshalTypeError ''object'' ''string''))"

text \<open>The \<open>json:"..."\<close> tags of \<open>SnappedPoint\<close> (lines 110-116) and of
  \<open>SnapToRoadResponse\<close> (line 104), in field order.\<close>

definition SnappedPoint_tags :: "string list" where
  "SnappedPoint_tags = [''location'', ''originalIndex'', ''placeId'']"

definition SnapToRoadResponse_tags :: "string list" where
  "SnapToRoadResponse_tags = [''snappedPoints'']"

text \<open>
  One member of a JSON object into a \<open>SnappedPoint\<close>; a key that selects no field is
  skipped. \<open>decLL\<close> decodes a value into a \<open>LatLng\<close>, whose declaration is outside
  roads.go; it is taken to be decoded like the other fields, field by field, so that an
  error in it is saved and decoding goes on.
\<close>

definition decode_SnappedPoint_member ::
  "(string \<Rightarrow> string) \<Rightarrow> (json \<Rightarrow> 'll \<Rightarrow> 'll \<times> error option) \<Rightarrow>
     'll SnappedPoint \<times> error option \<Rightarrow> string \<times> json \<Rightarrow> 'll SnappedPoint \<times> error option" where
  "decode_SnappedPoint_member casefold decLL st m =
     (case st of (p, saved) \<Rightarrow>
      (case m of (key, v) \<Rightarrow>
        (case json_field casefold SnappedPoint_tags key of
           None \<Rightarrow> (p, saved)
         | Some tag \<Rightarrow>
             if tag = ''location''
             then (case decLL v (Location p) of
                     (l, e) \<Rightarrow> (p\<lparr>Location := l\<rparr>, first_error saved e))
             else if tag = ''originalIndex''
             then (case decode_int_ptr v (OriginalIndex p) of
                     (i, e) \<Rightarrow> (p\<lparr>OriginalIndex := i\<rparr>, first_error saved e))
             else (case decode_string v (SnappedPoint.PlaceID p) of
                     (s, e) \<Rightarrow> (p\<lparr>SnappedPoint.PlaceID := s\<rparr>, first_error saved e)))))"

text \<open>A value into a \<open>SnappedPoint\<close>: the members of an object in their order.\<close>

fun decode_SnappedPoint ::
  "(string \<Rightarrow> string) \<Rightarrow> (json \<Rightarrow> 'll \<Rightarrow> 'll \<times> error option) \<Rightarrow>
     json \<Rightarrow> 'll SnappedPoint \<Rightarrow> 'll SnappedPoint \<times> error option" where
  "decode_SnappedPoint casefold decLL JNull p = (p, None)"
| "decode_SnappedPoint casefold decLL (JObject ms) p =
     foldl (decode_SnappedPoint_member casefold decLL) (p, None) ms"
| "decode_SnappedPoint casefold decLL (JBool b) p = (p, Some (json_UnmarshalTypeError ''bool'' ''SnappedPoint''))"
| "decode_SnappedPoint casefold decLL (JNumber s) p = (p, Some (json_UnmarshalTypeError ''number'' ''SnappedPoint''))"
| "decode_SnappedPoint casefold decLL (JString s) p = (p, Some (json_UnmarshalTypeError ''string'' ''SnappedPoint''))"
| "decode_SnappedPoint casefold decLL (JArray xs) p = (p, Some (json_UnmarshalTypeError ''array'' ''SnappedPoint''))"

text \<open>The zero value of \<open>SnappedPoint\<close>: a nil \<open>OriginalIndex\<close>.\<close>

definition SnappedPoint_zero :: "'ll \<Rightarrow> 'll SnappedPoint" where
  "SnappedPoint_zero zeroLL = \<lparr>Location = zeroLL, OriginalIndex = None, SnappedPoint.PlaceID = []\<rparr>"

text \<open>
  A value into the slice \<open>[]SnappedPoint\<close>. The decoder stores element \<open>i\<close> of an array
  into slot \<open>i\<close> of the slice's storage, which holds what an earlier, longer array of the
  same body left there (\<open>spare\<close>, past the slice's length) and is zero otherwise; an empty
  array and \<open>null\<close> give up the storage.
\<close>

fun decode_SnappedPoints ::
  "(string \<Rightarrow> string) \<Rightarrow> (json \<Rightarrow> 'll \<Rightarrow> 'll \<times> error option) \<Rightarrow> 'll \<Rightarrow> json \<Rightarrow>
     'll SnappedPoint list \<times> 'll SnappedPoint list \<Rightarrow>
     ('ll SnappedPoint list \<times> 'll SnappedPoint list) \<times> error option" where
  "decode_SnappedPoints casefold decLL zeroLL JNull (cur, spare) = (([], []), None)"
| "decode_SnappedPoints casefold decLL zeroLL (JArray xs) (cur, spare) =
     (if xs = [] then (([], []), None)
      else (let n = length xs;
                store = cur @ spare;
                slots = take n (store @ replicate n (SnappedPoint_zero zeroLL));
                decoded = map (\<lambda>(x, slot). decode_SnappedPoint casefold decLL x slot) (zip xs slots)
            in ((map fst decoded, drop n store), foldl first_error None (map snd decoded))))"
| "decode_SnappedPoints casefold decLL zeroLL (JBool b) (cur, spare) =
     ((cur, spare), Some (json_UnmarshalTypeError ''bool'' ''[]SnappedPoint''))"
| "decode_SnappedPoints casefold decLL zeroLL (JNumber s) (cur, spare) =
     ((cur, spare), Some (json_UnmarshalTypeError ''number'' ''[]SnappedPoint''))"
| "decode_SnappedPoints casefold decLL zeroLL (JString s) (cur, spare) =
     ((cur, spare), Some (json_UnmarshalTypeError ''string'' ''[]SnappedPoint''))"
| "decode_SnappedPoints casefold decLL zeroLL (JObject ms) (cur, spare) =
     ((cur, spare), Some (json_UnmarshalTypeError ''object'' ''[]SnappedPoint''))"

text \<open>One member of the body's object into a \<open>SnapToRoadResponse\<close>.\<close>

definition decode_SnapToRoadResponse_member ::
  "(string \<Rightarrow> string) \<Rightarrow> (json \<Rightarrow> 'll \<Rightarrow> 'll \<times> error option) \<Rightarrow> 'll \<Rightarrow>
     ('ll SnapToRoadResponse \<times> 'll SnappedPoint list) \<times> error option \<Rightarrow> string \<times> json \<Rightarrow>
     ('ll SnapToRoadResponse \<times> 'll SnappedPoint list) \<times> error option" where
  "decode_SnapToRoadResponse_member casefold decLL zeroLL st m =
     (case st of ((resp, spare), saved) \<Rightarrow>
      (case m of (key, v) \<Rightarrow>
        (case json_field casefold SnapToRoadResponse_tags key of
           None \<Rightarrow> ((resp, spare), saved)
         | Some tag \<Rightarrow>
             (case decode_SnappedPoints casefold decLL zeroLL v
                     (SnapToRoadResponse.SnappedPoints resp, spare) of
                ((ps, spare'), e) \<Rightarrow>
                  ((resp\<lparr>SnapToRoadResponse.SnappedPoints := ps\<rparr>, spare'), first_error saved e)))))"

text \<open>
  \<open>Decode(response)\<close> for \<open>response *SnapToRoadResponse\<close>: an unreadable body and a value
  that is no object leave the response as the code allocated it, and so does \<open>null\<close>,
  which is no error.
\<close>

fun json_Decode_SnapToRoadResponse ::
  "(string \<Rightarrow> string) \<Rightarrow> (json \<Rightarrow> 'll \<Rightarrow> 'll \<times> error option) \<Rightarrow> 'll \<Rightarrow> body \<Rightarrow>
     'll SnapToRoadResponse \<Rightarrow> 'll SnapToRoadResponse \<times> error option" where
  "json_Decode_SnapToRoadResponse casefold decLL zeroLL (Unreadable e) resp = (resp, Some e)"
| "json_Decode_SnapToRoadResponse casefold decLL zeroLL (Value JNull) resp = (resp, None)"
| "json_Decode_SnapToRoadResponse casefold decLL zeroLL (Value (JObject ms)) resp =
     (case foldl (decode_SnapToRoadResponse_member casefold decLL zeroLL) ((resp, []), None) ms of
        ((resp', spare), e) \<Rightarrow> (resp', e))"
| "json_Decode_SnapToRoadResponse casefold decLL zeroLL (Value (JBool b)) resp =
     (resp, Some (json_UnmarshalTypeError ''bool'' ''SnapToRoadResponse''))"
| "json_Decode_SnapToRoadResponse casefold decLL zeroLL (Value (JNumber s)) resp =
     (resp, Some (json_UnmarshalTypeError ''number'' ''SnapToRoadResponse''))"
| "json_Decode_SnapToRoadResponse casefold decLL zeroLL (Value (JString s)) resp =
     (resp, Some (json_UnmarshalTypeError ''string'' ''SnapToRoadResponse''))"
| "json_Decode_SnapToRoadResponse casefold decLL zeroLL (Value (JArray xs)) resp =
     (resp, Some (json_UnmarshalTypeError ''array'' ''SnapToRoadResponse''))"

subsection \<open>The spec's wording of the path parameter\<close>

text \<open>
  "The coordinates' lat,lng forms joined by the separator, in input order": the separator
  stands between every two consecutive forms, and nowhere else.
\<close>

fun joined_by :: "string \<Rightarrow> string list \<Rightarrow> string" where
  "joined_by sep [] = []"
| "joined_by sep [x] = x"
| "joined_by sep (x # y # ys) = x @ sep @ joined_by sep (y # ys)"

subsection \<open>A stub client and transport\<close>

text \<open>
  Concrete collaborators, for running the operations: coordinates are pairs of decimal
  literals, the request URL has no query part, the client signs with a fixed key and the
  transport answers with a given body.
\<close>

definition stub_LatLng_String :: "string \<times> string \<Rightarrow> string" where
  "stub_LatLng_String l = fst l @ '','' @ snd l"

fun stub_LatLng_member :: "string \<times> string \<Rightarrow> string \<times> json \<Rightarrow> string \<times> string" where
  "stub_LatLng_member (lat, lng) (key, JNumber s) =
     (if key = ''lat'' then (s, lng) else if key = ''lng'' then (lat, s) else (lat, lng))"
| "stub_LatLng_member l m = l"

fun stub_decode_LatLng :: "json \<Rightarrow> string \<times> string \<Rightarrow> (string \<times> string) \<times> error option" where
  "stub_decode_LatLng (JObject ms) l = (foldl stub_LatLng_member l ms, None)"
| "stub_decode_LatLng JNull l = (l, None)"
| "stub_decode_LatLng j l = (l, Some (json_UnmarshalTypeError ''value'' ''LatLng''))"

definition ascii_upper :: "char \<Rightarrow> char" where
  "ascii_upper c =
     (if 97 \<le> (of_char c :: nat) \<and> (of_char c :: nat) \<le> 122
      then char_of ((of_char c :: nat) - 32) else c)"

definition ascii_fold :: "string \<Rightarrow> string" where
  "ascii_fold s = map ascii_upper s"

definition stub_NewRequest :: "string \<Rightarrow> string \<Rightarrow> error + Request" where
  "stub_NewRequest m u =
     Inr \<lparr>Method = m, URL_String = u, URL_Path = drop 28 u, URL_RawQuery = []\<rparr>"

definition stub_URL_Query :: "Request \<Rightarrow> Values" where
  "stub_URL_Query req = Map.empty"

fun stub_Decode_SpeedLimitsResponse ::
  "body \<Rightarrow> (string \<times> string, int) SpeedLimitsResponse \<Rightarrow>
     (string \<times> string, int) SpeedLimitsResponse \<times> error option" where
  "stub_Decode_SpeedLimitsResponse (Unreadable e) resp = (resp, Some e)"
| "stub_Decode_SpeedLimitsResponse (Value j) resp = (resp, None)"

definition stub_Env :: "(string \<times> string, int, body) Env" where
  "stub_Env =
     \<lparr>LatLng_String = stub_LatLng_String,
      http_NewRequest = stub_NewRequest,
      URL_Query = stub_URL_Query,
      Decode_SnapToRoadResponse =
        json_Decode_SnapToRoadResponse ascii_fold stub_decode_LatLng (''0'', ''0''),
      Decode_SpeedLimitsResponse = stub_Decode_SpeedLimitsResponse\<rparr>"

definition stub_generateAuthQuery :: "string \<Rightarrow> Values \<Rightarrow> bool \<Rightarrow> error + string" where
  "stub_generateAuthQuery p q b = Inr ''key=k''"

definition failing_generateAuthQuery :: "string \<Rightarrow> Values \<Rightarrow> bool \<Rightarrow> error + string" where
  "failing_generateAuthQuery p q b = Inl (errors_New ''maps: API Key missing'')"

definition stub_httpDo :: "body \<Rightarrow> Request \<Rightarrow> error + body" where
  "stub_httpDo b req = Inr b"

definition stub_Client :: "body \<Rightarrow> body Client" where
  "stub_Client b =
     \<lparr>baseURL = [], generateAuthQuery = stub_generateAuthQuery, httpDo = stub_httpDo b\<rparr>"

definition unsigned_Client :: "body \<Rightarrow> body Client" where
  "unsigned_Client b =
     \<lparr>baseURL = [], generateAuthQuery = failing_generateAuthQuery, httpDo = stub_httpDo b\<rparr>"

definition stub_Context :: Context where
  "stub_Context = \<lparr>Err = errors_New ''context canceled''\<rparr>"

text \<open>\<open>{"snappedPoints":[{"location":{"lat":1,"lng":2},"originalIndex":0,"placeId":"p1"}]}\<close>\<close>

definition body_indexed :: body where
  "body_indexed =
     Value (JObject [(''snappedPoints'', JArray [JObject
       [(''location'', JObject [(''lat'', JNumber ''1''), (''lng'', JNumber ''2'')]),
        (''originalIndex'', JNumber ''0''),
        (''placeId'', JString ''p1'')]])])"

text \<open>\<open>{"snappedPoints":[{"location":{"lat":1,"lng":2},"placeId":"p1"}]}\<close>\<close>

definition body_interpolated :: body where
  "body_interpolated =
     Value (JObject [(''snappedPoints'', JArray [JObject
       [(''location'', JObject [(''lat'', JNumber ''1''), (''lng'', JNumber ''2'')]),
        (''placeId'', JString ''p1'')]])])"

text \<open>\<open>{"snappedPoints":[{"placeId":"p1","originalIndex":"x"}]}\<close>: a string where the
  integer belongs.\<close>

definition body_mistyped :: body where
  "body_mistyped =
     Value (JObject [(''snappedPoints'', JArray [JObject
       [(''placeId'', JString ''p1''), (''originalIndex'', JString ''x'')]])])"

text \<open>\<open>{"snappedPoints":[\<close>: the body ends inside the value.\<close>

definition body_truncated :: body where
  "body_truncated = Unreadable (errors_New ''unexpected EOF'')"

text \<open>\<open>{"snappedPoints":[{"originalIndex":0,"placeId":"a"}],"snappedPoints":[{"placeId":"c"}]}\<close>:
  the member is repeated, and the point of the second array has no index.\<close>

definition body_repeated :: body where
  "body_repeated =
     Value (JObject
       [(''snappedPoints'', JArray [JObject
          [(''originalIndex'', JNumber ''0''), (''placeId'', JString ''a'')]]),
        (''snappedPoints'', JArray [JObject [(''placeId'', JString ''c'')]])])"

text \<open>\<open>{"snappedPoints":[{"originalIndex":0,"originalIndex":null}]}\<close>: the key is repeated
  inside the point.\<close>

definition body_overwritten :: body where
  "body_overwritten =
     Value (JObject [(''snappedPoints'', JArray [JObject
       [(''originalIndex'', JNumber ''0''), (''originalIndex'', JNull)]])])"

text \<open>\<open>{"snappedPoints":[{"ORIGINALINDEX":7}]}\<close>: no \<open>originalIndex\<close> key, but one that
  equals it under case folding.\<close>

definition body_folded :: body where
  "body_folded =
     Value (JObject [(''snappedPoints'', JArray [JObject [(''ORIGINALINDEX'', JNumber ''7'')]])])"

definition stub_SnapToRoadRequest :: "(string \<times> string) SnapToRoadRequest" where
  "stub_SnapToRoadRequest = \<lparr>SnapToRoadRequest.Path = [(''1'', ''2'')], Interpolate = False\<rparr>"

definition stub_SpeedLimitsRequest :: "(string \<times> string) SpeedLimitsRequest" where
  "stub_SpeedLimitsRequest =
     \<lparr>SpeedLimitsRequest.Path = [(''1'', ''2''), (''3'', ''4'')],
      SpeedLimitsRequest.PlaceID = [''a'', ''b'', ''a''],
      SpeedLimitsRequest.Units = ''MPH''\<rparr>"

text \<open>The requests \<open>stub_NewRequest\<close> makes for the default base URL.\<close>

definition snapToRoads_Request :: Request where
  "snapToRoads_Request =
     \<lparr>Method = ''GET'', URL_String = ''https://roads.googleapis.com//v1/snapToRoads'',
      URL_Path = ''//v1/snapToRoads'', URL_RawQuery = []\<rparr>"

definition speedLimits_Request :: Request where
  "speedLimits_Request =
     \<lparr>Method = ''GET'', URL_String = ''https://roads.googleapis.com//v1/speedLimits'',
      URL_Path = ''//v1/speedLimits'', URL_RawQuery = []\<rparr>"

section \<open>Facts about the helpers\<close>

lemma path_strings_map: "path_strings env path = map (LatLng_String env) path"
proof -
  have "foldl (\<lambda>p e. p @ [f e]) acc xs = acc @ map f xs" for f :: "'a \<Rightarrow> string" and acc xs
    by (induction xs arbitrary: acc) simp_all
  then show ?thesis by (simp add: path_strings_def)
qed

lemma foldl_sep: "foldl (\<lambda>b s. b @ sep @ s) acc xs = acc @ concat (map (\<lambda>s. sep @ s) xs)"
  by (induction xs arbitrary: acc) simp_all

lemma joined_by_Cons: "joined_by sep (x # xs) = x @ concat (map (\<lambda>s. sep @ s) xs)"
  by (induction xs arbitrary: x) simp_all

lemma strings_Join_joined_by: "strings_Join a sep = joined_by sep a"
  by (cases a) (simp_all add: strings_Join_def foldl_sep joined_by_Cons)

lemma Values_index_Add: "Values_index (Values_Add q k v) k = Values_index q k @ [v]"
  by (simp add: Values_Add_def Values_index_def)

lemma foldl_Values_Add_same:
  "foldl (\<lambda>q v. Values_Add q k v) q vs k = (if vs = [] then q k else Some (Values_index q k @ vs))"
proof (induction vs arbitrary: q)
  case Nil
  then show ?case by simp
next
  case (Cons v vs)
  show ?case
    by (simp add: Cons.IH Values_index_Add) (simp add: Values_Add_def)
qed

lemma foldl_Values_Add_other:
  "k' \<noteq> k \<Longrightarrow> foldl (\<lambda>q v. Values_Add q k v) q vs k' = q k'"
  by (induction vs arbitrary: q) (simp_all add: Values_Add_def)

lemma snapToRoadQuery_path:
  "snapToRoadQuery env req r ''path'' =
     Some [joined_by ''|'' (map (LatLng_String env) (SnapToRoadRequest.Path r))]"
  by (simp add: snapToRoadQuery_def Let_def Values_Set_def path_strings_map strings_Join_joined_by)

lemma speedLimitsQuery_path:
  "speedLimitsQuery env req r ''path'' =
     (if SpeedLimitsRequest.Path r = [] then URL_Query env req ''path''
      else Some [joined_by ''|'' (map (LatLng_String env) (SpeedLimitsRequest.Path r))])"
  by (simp add: speedLimitsQuery_def Let_def Values_Set_def path_strings_map
      strings_Join_joined_by foldl_Values_Add_other)

lemma speedLimitsQuery_placeId:
  "speedLimitsQuery env req r ''placeId'' =
     (if SpeedLimitsRequest.PlaceID r = [] then URL_Query env req ''placeId''
      else Some (Values_index (URL_Query env req) ''placeId'' @ SpeedLimitsRequest.PlaceID r))"
  by (simp add: speedLimitsQuery_def Let_def Values_Set_def foldl_Values_Add_same Values_index_def)

lemma speedLimitsQuery_units:
  "speedLimitsQuery env req r ''units'' =
     (if SpeedLimitsRequest.Units r = [] then URL_Query env req ''units''
      else Some [SpeedLimitsRequest.Units r])"
  by (simp add: speedLimitsQuery_def Let_def Values_Set_def foldl_Values_Add_other)

lemma doGetSnapToRoad_auth_queries:
  "http_NewRequest env ''GET'' (roads_baseURL c @ ''/v1/snapToRoads'') = Inr req \<Longrightarrow>
   auth_queries (snd (doGetSnapToRoad env c r)) = [snapToRoadQuery env req r]"
  by (simp add: doGetSnapToRoad_def Let_def split: sum.splits prod.splits)

lemma doGetSpeedLimits_auth_queries:
  "http_NewRequest env ''GET'' (roads_baseURL c @ ''/v1/speedLimits'') = Inr req \<Longrightarrow>
   auth_queries (snd (doGetSpeedLimits env c r)) = [speedLimitsQuery env req r]"
  by (simp add: doGetSpeedLimits_def Let_def split: sum.splits prod.splits)

lemma SnapToRoad_proceeds:
  "SnapToRoadRequest.Path r \<noteq> [] \<Longrightarrow>
   SnapToRoad env c ctx sched pick r =
     (select_race (fst (doGetSnapToRoad env c r)) (None, Some (Err ctx)) pick sched,
      Go_worker # snd (doGetSnapToRoad env c r))"
  by (simp add: SnapToRoad_def split: prod.splits)

lemma SpeedLimits_proceeds:
  "SpeedLimitsRequest.Path r \<noteq> [] \<or> SpeedLimitsRequest.PlaceID r \<noteq> [] \<Longrightarrow>
   SpeedLimits env c ctx sched pick r =
     (select_race (fst (doGetSpeedLimits env c r)) (None, Some (Err ctx)) pick sched,
      Go_worker # snd (doGetSpeedLimits env c r))"
  by (auto simp add: SpeedLimits_def split: prod.splits)

lemma race_returned_stays:
  "caller s = Returned y \<Longrightarrow> caller (foldl (race_step w x pick) s sched) = Returned y"
proof (induction sched arbitrary: s)
  case Nil
  then show ?case by simp
next
  case (Cons e sched)
  have "caller (race_step w x pick s e) = Returned y"
    using Cons.prems by (cases e) simp_all
  then show ?case by (simp add: Cons.IH)
qed

lemma race_step_outcomes:
  "caller s \<in> {Before_select, Blocked, Returned w, Returned x} \<Longrightarrow>
   caller (race_step w x pick s e) \<in> {Before_select, Blocked, Returned w, Returned x}"
  by (cases e; cases pick) (auto split: caller.splits)

lemma race_outcomes:
  "caller s \<in> {Before_select, Blocked, Returned w, Returned x} \<Longrightarrow>
   caller (foldl (race_step w x pick) s sched) \<in> {Before_select, Blocked, Returned w, Returned x}"
proof (induction sched arbitrary: s)
  case Nil
  then show ?case by simp
next
  case (Cons e sched)
  from race_step_outcomes [OF Cons.prems] show ?case
    by (simp del: insert_iff add: Cons.IH)
qed

lemma select_race_outcomes:
  "select_race w x pick sched \<in> {None, Some w, Some x}"
proof -
  have "caller (foldl (race_step w x pick) race_init sched)
          \<in> {Before_select, Blocked, Returned w, Returned x}"
    by (rule race_outcomes) (simp add: race_init_def)
  then show ?thesis
    by (auto simp add: select_race_def split: caller.splits)
qed


lemma race_cancel_inv:
  "sender_waiting s = False \<Longrightarrow> Worker_sends \<notin> set pre \<Longrightarrow>
   (caller s = Blocked \<and> Ctx_Done \<in> set pre) \<or>
   (caller s = Before_select \<and> done_closed s \<and> Select_reached \<in> set pre) \<or>
   (caller s = Before_select \<and> Select_reached \<in> set pre \<and> Ctx_Done \<in> set pre) \<or>
   caller s = Returned x \<Longrightarrow>
   caller (foldl (race_step w x pick) s pre) = Returned x"
proof (induction pre arbitrary: s)
  case Nil
  then show ?case by simp
next
  case (Cons e pre)
  let ?s = "race_step w x pick s e"
  have e: "e \<noteq> Worker_sends" and pre: "Worker_sends \<notin> set pre"
    using Cons.prems(2) by auto
  have sw: "sender_waiting ?s = False"
    using Cons.prems(1) e by (cases e) (simp_all split: caller.splits)
  have "(caller ?s = Blocked \<and> Ctx_Done \<in> set pre) \<or>
        (caller ?s = Before_select \<and> done_closed ?s \<and> Select_reached \<in> set pre) \<or>
        (caller ?s = Before_select \<and> Select_reached \<in> set pre \<and> Ctx_Done \<in> set pre) \<or>
        caller ?s = Returned x"
    using Cons.prems(1,3) e by (cases e) (auto split: caller.splits)
  from Cons.IH [OF sw pre this] show ?case by simp
qed

lemma select_race_cancelled:
  assumes "Select_reached \<in> set pre" and "Ctx_Done \<in> set pre" and "Worker_sends \<notin> set pre"
  shows "select_race w x pick (pre @ post) = Some x"
proof -
  have "caller (foldl (race_step w x pick) race_init pre) = Returned x"
    using assms by (intro race_cancel_inv) (simp_all add: race_init_def)
  then have "caller (foldl (race_step w x pick) race_init (pre @ post)) = Returned x"
    by (simp add: race_returned_stays)
  then show ?thesis by (simp add: select_race_def)
qed

lemma race_result_inv:
  "done_closed s = False \<Longrightarrow> Ctx_Done \<notin> set sched \<Longrightarrow>
   (caller s = Blocked \<and> Worker_sends \<in> set sched) \<or>
   (caller s = Before_select \<and> sender_waiting s \<and> Select_reached \<in> set sched) \<or>
   (caller s = Before_select \<and> Select_reached \<in> set sched \<and> Worker_sends \<in> set sched) \<or>
   caller s = Returned w \<Longrightarrow>
   caller (foldl (race_step w x pick) s sched) = Returned w"
proof (induction sched arbitrary: s)
  case Nil
  then show ?case by simp
next
  case (Cons e sched)
  let ?s = "race_step w x pick s e"
  have e: "e \<noteq> Ctx_Done" and sched: "Ctx_Done \<notin> set sched"
    using Cons.prems(2) by auto
  have dc: "done_closed ?s = False"
    using Cons.prems(1) e by (cases e) (simp_all split: caller.splits)
  have "(caller ?s = Blocked \<and> Worker_sends \<in> set sched) \<or>
        (caller ?s = Before_select \<and> sender_waiting ?s \<and> Select_reached \<in> set sched) \<or>
        (caller ?s = Before_select \<and> Select_reached \<in> set sched \<and> Worker_sends \<in> set sched) \<or>
        caller ?s = Returned w"
    using Cons.prems(1,3) e by (cases e) (auto split: caller.splits)
  from Cons.IH [OF dc sched this] show ?case by simp
qed

lemma select_race_not_cancelled:
  assumes "Ctx_Done \<notin> set sched" and "Select_reached \<in> set sched" and "Worker_sends \<in> set sched"
  shows "select_race w x pick sched = Some w"
proof -
  have "caller (foldl (race_step w x pick) race_init sched) = Returned w"
    using assms by (intro race_result_inv) (simp_all add: race_init_def)
  then show ?thesis by (simp add: select_race_def)
qed

lemma stub_snapToRoads_request:
  "http_NewRequest stub_Env ''GET'' (roads_baseURL (stub_Client b) @ ''/v1/snapToRoads'') =
     Inr snapToRoads_Request"
  by (simp add: stub_Env_def stub_Client_def roads_baseURL_def stub_NewRequest_def
      snapToRoads_Request_def)

lemma stub_speedLimits_request:
  "http_NewRequest stub_Env ''GET'' (roads_baseURL (stub_Client b) @ ''/v1/speedLimits'') =
     Inr speedLimits_Request"
  by (simp add: stub_Env_def stub_Client_def roads_baseURL_def stub_NewRequest_def
      speedLimits_Request_def)

lemma stub_URL_Query_empty: "URL_Query stub_Env req key = None"
  by (simp add: stub_Env_def stub_URL_Query_def)

lemma stub_LatLng_String_pair: "LatLng_String stub_Env (a, b) = a @ '','' @ b"
  by (simp add: stub_Env_def stub_LatLng_String_def)

lemma doGetSnapToRoad_auth_error:
  "http_NewRequest env ''GET'' (roads_baseURL c @ ''/v1/snapToRoads'') = Inr req \<Longrightarrow>
   generateAuthQuery c (URL_Path req) (snapToRoadQuery env req r) False = Inl e \<Longrightarrow>
   doGetSnapToRoad env c r =
     ((None, Some e), [Call_generateAuthQuery (URL_Path req) (snapToRoadQuery env req r) False])"
  by (simp add: doGetSnapToRoad_def Let_def)

lemma doGetSpeedLimits_auth_error:
  "http_NewRequest env ''GET'' (roads_baseURL c @ ''/v1/speedLimits'') = Inr req \<Longrightarrow>
   generateAuthQuery c (URL_Path req) (speedLimitsQuery env req r) False = Inl e \<Longrightarrow>
   doGetSpeedLimits env c r =
     ((None, Some e), [Call_generateAuthQuery (URL_Path req) (speedLimitsQuery env req r) False])"
  by (simp add: doGetSpeedLimits_def Let_def)

lemma race_before_select:
  "caller s = Before_select \<Longrightarrow> Select_reached \<notin> set pre \<Longrightarrow>
   caller (foldl (race_step w x pick) s pre) = Before_select \<and>
   sender_waiting (foldl (race_step w x pick) s pre) = (sender_waiting s \<or> Worker_sends \<in> set pre) \<and>
   done_closed (foldl (race_step w x pick) s pre) = (done_closed s \<or> Ctx_Done \<in> set pre)"
proof (induction pre arbitrary: s)
  case Nil
  then show ?case by simp
next
  case (Cons e pre)
  let ?s = "race_step w x pick s e"
  have e: "e \<noteq> Select_reached" and pre: "Select_reached \<notin> set pre"
    using Cons.prems(2) by auto
  have step: "caller ?s = Before_select"
    "sender_waiting ?s = (sender_waiting s \<or> e = Worker_sends)"
    "done_closed ?s = (done_closed s \<or> e = Ctx_Done)"
    using Cons.prems(1) e by (cases e; simp)+
  from Cons.IH [OF step(1) pre] show ?case
    by (auto simp add: step)
qed

lemma select_race_both_ready:
  assumes "Select_reached \<notin> set pre" and "Ctx_Done \<in> set pre" and "Worker_sends \<in> set pre"
  shows "select_race w x pick (pre @ Select_reached # post) =
           Some (case pick of Case_chResult \<Rightarrow> w | Case_ctxDone \<Rightarrow> x)"
proof -
  let ?s = "foldl (race_step w x pick) race_init pre"
  have "caller ?s = Before_select \<and> sender_waiting ?s \<and> done_closed ?s"
    using race_before_select [of race_init pre w x pick] assms by (simp add: race_init_def)
  then have "caller (race_step w x pick ?s Select_reached) =
      Returned (case pick of Case_chResult \<Rightarrow> w | Case_ctxDone \<Rightarrow> x)"
    by simp
  then have "caller (foldl (race_step w x pick) race_init (pre @ Select_reached # post)) =
      Returned (case pick of Case_chResult \<Rightarrow> w | Case_ctxDone \<Rightarrow> x)"
    by (simp add: race_returned_stays)
  then show ?thesis by (simp add: select_race_def)
qed

lemma select_race_send_then_select:
  "select_race w x pick [Select_reached, Worker_sends] = Some w"
  by (simp add: select_race_def race_init_def)

lemma select_race_cancel_send_select:
  "select_race w x Case_chResult [Ctx_Done, Worker_sends, Select_reached] = Some w"
  by (simp add: select_race_def race_init_def)

lemma stub_doGetSnapToRoad:
  "doGetSnapToRoad stub_Env (stub_Client b) r =
     ((Some (fst (json_Decode_SnapToRoadResponse ascii_fold stub_decode_LatLng (''0'', ''0'') b
                    \<lparr>SnapToRoadResponse.SnappedPoints = []\<rparr>)),
       snd (json_Decode_SnapToRoadResponse ascii_fold stub_decode_LatLng (''0'', ''0'') b
                    \<lparr>SnapToRoadResponse.SnappedPoints = []\<rparr>)),
      [Call_generateAuthQuery ''//v1/snapToRoads'' (snapToRoadQuery stub_Env snapToRoads_Request r) False,
       Call_httpDo (snapToRoads_Request\<lparr>URL_RawQuery := ''key=k''\<rparr>)])"
  unfolding doGetSnapToRoad_def stub_snapToRoads_request
  by (simp add: Let_def case_prod_beta stub_Client_def stub_Env_def stub_generateAuthQuery_def
      stub_httpDo_def snapToRoads_Request_def)

lemma stub_doGetSpeedLimits:
  "doGetSpeedLimits stub_Env (stub_Client b) r =
     ((Some (fst (stub_Decode_SpeedLimitsResponse b
                    \<lparr>SpeedLimitsResponse.SpeedLimits = [], SpeedLimitsResponse.SnappedPoints = []\<rparr>)),
       snd (stub_Decode_SpeedLimitsResponse b
                    \<lparr>SpeedLimitsResponse.SpeedLimits = [], SpeedLimitsResponse.SnappedPoints = []\<rparr>)),
      [Call_generateAuthQuery ''//v1/speedLimits'' (speedLimitsQuery stub_Env speedLimits_Request r) False,
       Call_httpDo (speedLimits_Request\<lparr>URL_RawQuery := ''key=k''\<rparr>)])"
  unfolding doGetSpeedLimits_def stub_speedLimits_request
  by (simp add: Let_def case_prod_beta stub_Client_def stub_Env_def stub_generateAuthQuery_def
      stub_httpDo_def speedLimits_Request_def)

lemma decode_body_indexed:
  "json_Decode_SnapToRoadResponse ascii_fold stub_decode_LatLng (''0'', ''0'') body_indexed
       \<lparr>SnapToRoadResponse.SnappedPoints = []\<rparr> =
     (\<lparr>SnapToRoadResponse.SnappedPoints =
         [\<lparr>Location = (''1'', ''2''), OriginalIndex = Some 0, SnappedPoint.PlaceID = ''p1''\<rparr>]\<rparr>, None)"
  by code_simp

lemma decode_body_interpolated:
  "json_Decode_SnapToRoadResponse ascii_fold stub_decode_LatLng (''0'', ''0'') body_interpolated
       \<lparr>SnapToRoadResponse.SnappedPoints = []\<rparr> =
     (\<lparr>SnapToRoadResponse.SnappedPoints =
         [\<lparr>Location = (''1'', ''2''), OriginalIndex = None, SnappedPoint.PlaceID = ''p1''\<rparr>]\<rparr>, None)"
  by code_simp

lemma decode_body_mistyped:
  "json_Decode_SnapToRoadResponse ascii_fold stub_decode_LatLng (''0'', ''0'') body_mistyped
       \<lparr>SnapToRoadResponse.SnappedPoints = []\<rparr> =
     (\<lparr>SnapToRoadResponse.SnappedPoints =
         [\<lparr>Location = (''0'', ''0''), OriginalIndex = Some 0, SnappedPoint.PlaceID = ''p1''\<rparr>]\<rparr>,
      Some (json_UnmarshalTypeError ''string'' ''int''))"
  by code_simp

lemma decode_body_truncated:
  "json_Decode_SnapToRoadResponse ascii_fold stub_decode_LatLng (''0'', ''0'') body_truncated
       \<lparr>SnapToRoadResponse.SnappedPoints = []\<rparr> =
     (\<lparr>SnapToRoadResponse.SnappedPoints = []\<rparr>, Some (errors_New ''unexpected EOF''))"
  by (simp add: body_truncated_def)

lemma unsigned_snapToRoads_request:
  "http_NewRequest stub_Env ''GET'' (roads_baseURL (unsigned_Client b) @ ''/v1/snapToRoads'') =
     Inr snapToRoads_Request"
  by (simp add: stub_Env_def unsigned_Client_def roads_baseURL_def stub_NewRequest_def
      snapToRoads_Request_def)

lemma unsigned_speedLimits_request:
  "http_NewRequest stub_Env ''GET'' (roads_baseURL (unsigned_Client b) @ ''/v1/speedLimits'') =
     Inr speedLimits_Request"
  by (simp add: stub_Env_def unsigned_Client_def roads_baseURL_def stub_NewRequest_def
      speedLimits_Request_def)

lemma unsigned_generateAuthQuery:
  "generateAuthQuery (unsigned_Client b) p q flag = Inl (errors_New ''maps: API Key missing'')"
  by (simp add: unsigned_Client_def failing_generateAuthQuery_def)

lemma strconv_ParseInt_zero: "strconv_ParseInt ''0'' = Some 0"
  by code_simp

lemma member_keeps_OriginalIndex:
  assumes "json_field casefold SnappedPoint_tags (fst m) \<noteq> Some ''originalIndex''"
  shows "OriginalIndex (fst (decode_SnappedPoint_member casefold decLL st m)) = OriginalIndex (fst st)"
proof -
  obtain key v where m: "m = (key, v)" by (cases m)
  obtain p e where st: "st = (p, e)" by (cases st)
  show ?thesis
    using assms
    by (cases "json_field casefold SnappedPoint_tags key")
       (simp_all add: decode_SnappedPoint_member_def m st case_prod_beta)
qed

lemma members_keep_OriginalIndex:
  "\<forall>m\<in>set ms. json_field casefold SnappedPoint_tags (fst m) \<noteq> Some ''originalIndex'' \<Longrightarrow>
   OriginalIndex (fst (foldl (decode_SnappedPoint_member casefold decLL) st ms)) =
     OriginalIndex (fst st)"
  by (induction ms arbitrary: st) (simp_all add: member_keeps_OriginalIndex)

lemma member_zero_index:
  assumes "json_field casefold SnappedPoint_tags k = Some ''originalIndex''"
  shows "OriginalIndex (fst (decode_SnappedPoint_member casefold decLL st (k, JNumber ''0''))) = Some 0"
proof -
  obtain p e where st: "st = (p, e)" by (cases st)
  show ?thesis
    using assms
    by (simp add: decode_SnappedPoint_member_def st strconv_ParseInt_zero)
qed

lemma decode_SnappedPoint_absent:
  assumes "\<forall>m\<in>set ms. json_field casefold SnappedPoint_tags (fst m) \<noteq> Some ''originalIndex''"
  shows "OriginalIndex (fst (decode_SnappedPoint casefold decLL (JObject ms) (SnappedPoint_zero z))) = None"
  using members_keep_OriginalIndex [OF assms, of decLL "(SnappedPoint_zero z, None)"]
  by (simp add: SnappedPoint_zero_def)

lemma decode_SnappedPoint_zero_index:
  assumes "json_field casefold SnappedPoint_tags k = Some ''originalIndex''"
    and "\<forall>m\<in>set ms2. json_field casefold SnappedPoint_tags (fst m) \<noteq> Some ''originalIndex''"
  shows "OriginalIndex (fst (decode_SnappedPoint casefold decLL
            (JObject (ms1 @ (k, JNumber ''0'') # ms2)) p)) = Some 0"
  by (simp add: members_keep_OriginalIndex [OF assms(2)] member_zero_index [OF assms(1)])

lemma decode_SnappedPoints_fresh:
  "decode_SnappedPoints casefold decLL z (JArray xs) ([], []) =
     ((map (\<lambda>x. fst (decode_SnappedPoint casefold decLL x (SnappedPoint_zero z))) xs, []),
      foldl first_error None
        (map (\<lambda>x. snd (decode_SnappedPoint casefold decLL x (SnappedPoint_zero z))) xs))"
  by (simp add: Let_def zip_replicate2 comp_def)

lemma other_member_skipped:
  assumes "json_field casefold SnapToRoadResponse_tags (fst m) = None"
  shows "decode_SnapToRoadResponse_member casefold decLL z st m = st"
proof -
  obtain key v where m: "m = (key, v)" by (cases m)
  obtain resp spare e where st: "st = ((resp, spare), e)" by (cases st) auto
  show ?thesis
    using assms by (simp add: decode_SnapToRoadResponse_member_def m st)
qed

lemma other_members_skipped:
  "\<forall>m\<in>set ms. json_field casefold SnapToRoadResponse_tags (fst m) = None \<Longrightarrow>
   foldl (decode_SnapToRoadResponse_member casefold decLL z) st ms = st"
  by (induction ms arbitrary: st) (simp_all add: other_member_skipped)

lemma Decode_single_array:
  assumes "json_field casefold SnapToRoadResponse_tags k \<noteq> None"
    and "\<forall>m\<in>set (pre @ post). json_field casefold SnapToRoadResponse_tags (fst m) = None"
  shows "fst (json_Decode_SnapToRoadResponse casefold decLL z
            (Value (JObject (pre @ (k, JArray xs) # post)))
            \<lparr>SnapToRoadResponse.SnappedPoints = []\<rparr>) =
         \<lparr>SnapToRoadResponse.SnappedPoints =
            map (\<lambda>x. fst (decode_SnappedPoint casefold decLL x (SnappedPoint_zero z))) xs\<rparr>"
proof -
  from assms(2) have pre: "\<forall>m\<in>set pre. json_field casefold SnapToRoadResponse_tags (fst m) = None"
    and post: "\<forall>m\<in>set post. json_field casefold SnapToRoadResponse_tags (fst m) = None"
    by auto
  from assms(1) obtain tag where tag: "json_field casefold SnapToRoadResponse_tags k = Some tag"
    by auto
  show ?thesis
    by (simp add: other_members_skipped [OF pre] other_members_skipped [OF post]
        decode_SnapToRoadResponse_member_def tag decode_SnappedPoints_fresh
        del: decode_SnappedPoints.simps)
qed

lemma exact_tags:
  "json_field casefold SnapToRoadResponse_tags ''snappedPoints'' = Some ''snappedPoints''"
  "json_field casefold SnappedPoint_tags ''location'' = Some ''location''"
  "json_field casefold SnappedPoint_tags ''originalIndex'' = Some ''originalIndex''"
  "json_field casefold SnappedPoint_tags ''placeId'' = Some ''placeId''"
  by (simp_all add: json_field_def SnapToRoadResponse_tags_def SnappedPoint_tags_def)

lemma folded_tags:
  "json_field ascii_fold SnapToRoadResponse_tags ''SnappedPoints'' = Some ''snappedPoints''"
  "json_field ascii_fold SnappedPoint_tags ''ORIGINALINDEX'' = Some ''originalIndex''"
  by code_simp+

text \<open>
  The two bodies of the end-to-end examples through the whole operation, on the stub
  transport: the point that carries \<open>"originalIndex":0\<close> comes back with the index present
  and zero, the point without the key with the index absent.
\<close>

lemma SnapToRoad_end_to_end:
  "fst (SnapToRoad stub_Env (stub_Client body_indexed) stub_Context [Select_reached, Worker_sends]
          Case_chResult stub_SnapToRoadRequest) =
     Some (Some \<lparr>SnapToRoadResponse.SnappedPoints =
              [\<lparr>Location = (''1'', ''2''), OriginalIndex = Some 0, SnappedPoint.PlaceID = ''p1''\<rparr>]\<rparr>,
           None)
   \<and> fst (SnapToRoad stub_Env (stub_Client body_interpolated) stub_Context [Select_reached, Worker_sends]
          Case_chResult stub_SnapToRoadRequest) =
     Some (Some \<lparr>SnapToRoadResponse.SnappedPoints =
              [\<lparr>Location = (''1'', ''2''), OriginalIndex = None, SnappedPoint.PlaceID = ''p1''\<rparr>]\<rparr>,
           None)"
proof -
  have snap: "SnapToRoadRequest.Path stub_SnapToRoadRequest \<noteq> []"
    by (simp add: stub_SnapToRoadRequest_def)
  show ?thesis
    by (simp add: SnapToRoad_proceeds [OF snap] stub_doGetSnapToRoad decode_body_indexed
        decode_body_interpolated select_race_send_then_select)
qed

lemma decode_body_repeated:
  "json_Decode_SnapToRoadResponse ascii_fold stub_decode_LatLng (''0'', ''0'') body_repeated
       \<lparr>SnapToRoadResponse.SnappedPoints = []\<rparr> =
     (\<lparr>SnapToRoadResponse.SnappedPoints =
         [\<lparr>Location = (''0'', ''0''), OriginalIndex = Some 0, SnappedPoint.PlaceID = ''c''\<rparr>]\<rparr>, None)"
  by code_simp

lemma decode_body_overwritten:
  "json_Decode_SnapToRoadResponse ascii_fold stub_decode_LatLng (''0'', ''0'') body_overwritten
       \<lparr>SnapToRoadResponse.SnappedPoints = []\<rparr> =
     (\<lparr>SnapToRoadResponse.SnappedPoints =
         [\<lparr>Location = (''0'', ''0''), OriginalIndex = None, SnappedPoint.PlaceID = []\<rparr>]\<rparr>, None)"
  by code_simp

lemma decode_body_folded:
  "json_Decode_SnapToRoadResponse ascii_fold stub_decode_LatLng (''0'', ''0'') body_folded
       \<lparr>SnapToRoadResponse.SnappedPoints = []\<rparr> =
     (\<lparr>SnapToRoadResponse.SnappedPoints =
         [\<lparr>Location = (''0'', ''0''), OriginalIndex = Some 7, SnappedPoint.PlaceID = []\<rparr>]\<rparr>, None)"
  by code_simp

section \<open>The claims\<close>

subsection \<open>Validation\<close>

text \<open>
  C2. For every SnapToRoadRequest whose Path is the empty sequence, SnapToRoad returns the
  validation error "snapToRoad: You must specify a Path" with a nil response, whatever the
  client, the context and the scheduling, and it has no effect: it starts no worker, asks
  for no signed query and performs no HTTP call (the list of effects is empty).
\<close>

theorem SnapToRoad_empty_path:
  assumes "SnapToRoadRequest.Path r = []"
  shows "SnapToRoad env c ctx sched pick r =
           (Some (None, Some (errors_New ''snapToRoad: You must specify a Path'')), [])"
  using assms by (simp add: SnapToRoad_def)

text \<open>The request with an empty path and \<open>Interpolate\<close> set, on the stub client.\<close>

theorem SnapToRoad_empty_path_witness:
  "SnapToRoadRequest.Path \<lparr>SnapToRoadRequest.Path = ([] :: (string \<times> string) list), Interpolate = True\<rparr> = [] \<and>
   SnapToRoad stub_Env (stub_Client body_indexed) stub_Context [Worker_sends, Select_reached]
       Case_chResult \<lparr>SnapToRoadRequest.Path = [], Interpolate = True\<rparr> =
     (Some (None, Some (errors_New ''snapToRoad: You must specify a Path'')), [])"
  using SnapToRoad_empty_path
    [of "\<lparr>SnapToRoadRequest.Path = [], Interpolate = True\<rparr>" stub_Env "stub_Client body_indexed"
        stub_Context "[Worker_sends, Select_reached]" Case_chResult]
  by simp

text \<open>
  C3. For every SpeedLimitsRequest whose Path and PlaceID are both empty, SpeedLimits
  returns the validation error "speedLimits: You must specify a Path or PlaceID" with a nil
  response and has no effect (no worker, no HTTP call). If at least one of Path and PlaceID
  is non-empty, the request passes validation: the worker is started, it runs
  \<open>doGetSpeedLimits\<close>, and the caller waits in the select for its result.
\<close>

theorem SpeedLimits_validation:
  "(SpeedLimitsRequest.Path r = [] \<and> SpeedLimitsRequest.PlaceID r = [] \<longrightarrow>
      SpeedLimits env c ctx sched pick r =
        (Some (None, Some (errors_New ''speedLimits: You must specify a Path or PlaceID'')), []))
   \<and> (SpeedLimitsRequest.Path r \<noteq> [] \<or> SpeedLimitsRequest.PlaceID r \<noteq> [] \<longrightarrow>
      SpeedLimits env c ctx sched pick r =
        (select_race (fst (doGetSpeedLimits env c r)) (None, Some (Err ctx)) pick sched,
         Go_worker # snd (doGetSpeedLimits env c r)))"
proof (intro conjI impI)
  assume "SpeedLimitsRequest.Path r = [] \<and> SpeedLimitsRequest.PlaceID r = []"
  then show "SpeedLimits env c ctx sched pick r =
      (Some (None, Some (errors_New ''speedLimits: You must specify a Path or PlaceID'')), [])"
    by (simp add: SpeedLimits_def)
next
  assume "SpeedLimitsRequest.Path r \<noteq> [] \<or> SpeedLimitsRequest.PlaceID r \<noteq> []"
  then show "SpeedLimits env c ctx sched pick r =
      (select_race (fst (doGetSpeedLimits env c r)) (None, Some (Err ctx)) pick sched,
       Go_worker # snd (doGetSpeedLimits env c r))"
    by (rule SpeedLimits_proceeds)
qed

text \<open>
  Three requests on the stub client: both sequences empty (rejected, no effect), only a
  place id, only a path (each reaches the transport once).
\<close>

theorem SpeedLimits_validation_witness:
  "SpeedLimits stub_Env (stub_Client body_indexed) stub_Context [Select_reached, Worker_sends] Case_chResult
       \<lparr>SpeedLimitsRequest.Path = [], SpeedLimitsRequest.PlaceID = [], SpeedLimitsRequest.Units = ''MPH''\<rparr> =
     (Some (None, Some (errors_New ''speedLimits: You must specify a Path or PlaceID'')), [])
   \<and> filter is_httpDo (snd (SpeedLimits stub_Env (stub_Client body_indexed) stub_Context
          [Select_reached, Worker_sends] Case_chResult
          \<lparr>SpeedLimitsRequest.Path = [], SpeedLimitsRequest.PlaceID = [''a''], SpeedLimitsRequest.Units = []\<rparr>)) =
       [Call_httpDo \<lparr>Method = ''GET'', URL_String = ''https://roads.googleapis.com//v1/speedLimits'',
          URL_Path = ''//v1/speedLimits'', URL_RawQuery = ''key=k''\<rparr>]
   \<and> filter is_httpDo (snd (SpeedLimits stub_Env (stub_Client body_indexed) stub_Context
          [Select_reached, Worker_sends] Case_chResult
          \<lparr>SpeedLimitsRequest.Path = [(''1'', ''2'')], SpeedLimitsRequest.PlaceID = [], SpeedLimitsRequest.Units = []\<rparr>)) =
       [Call_httpDo \<lparr>Method = ''GET'', URL_String = ''https://roads.googleapis.com//v1/speedLimits'',
          URL_Path = ''//v1/speedLimits'', URL_RawQuery = ''key=k''\<rparr>]"
proof -
  have stub: "snd (doGetSpeedLimits stub_Env (stub_Client body_indexed) r) =
      [Call_generateAuthQuery ''//v1/speedLimits''
         (speedLimitsQuery stub_Env \<lparr>Method = ''GET'', URL_String = ''https://roads.googleapis.com//v1/speedLimits'',
          URL_Path = ''//v1/speedLimits'', URL_RawQuery = []\<rparr> r) False,
       Call_httpDo \<lparr>Method = ''GET'', URL_String = ''https://roads.googleapis.com//v1/speedLimits'',
          URL_Path = ''//v1/speedLimits'', URL_RawQuery = ''key=k''\<rparr>]" for r
    by (simp add: doGetSpeedLimits_def stub_Env_def stub_Client_def roads_baseURL_def
        stub_NewRequest_def stub_generateAuthQuery_def stub_httpDo_def body_indexed_def Let_def
        split: prod.splits)
  show ?thesis
    using SpeedLimits_validation [of "\<lparr>SpeedLimitsRequest.Path = [], SpeedLimitsRequest.PlaceID = [],
          SpeedLimitsRequest.Units = ''MPH''\<rparr>" stub_Env "stub_Client body_indexed" stub_Context
          "[Select_reached, Worker_sends]" Case_chResult]
      SpeedLimits_validation [of "\<lparr>SpeedLimitsRequest.Path = [], SpeedLimitsRequest.PlaceID = [''a''],
          SpeedLimitsRequest.Units = []\<rparr>" stub_Env "stub_Client body_indexed" stub_Context
          "[Select_reached, Worker_sends]" Case_chResult]
      SpeedLimits_validation [of "\<lparr>SpeedLimitsRequest.Path = [(''1'', ''2'')], SpeedLimitsRequest.PlaceID = [],
          SpeedLimitsRequest.Units = []\<rparr>" stub_Env "stub_Client body_indexed" stub_Context
          "[Select_reached, Worker_sends]" Case_chResult]
    by (simp add: stub)
qed

subsection \<open>The query\<close>

text \<open>
  C4. For every non-empty Path, in SnapToRoad and in SpeedLimits, the query handed to
  \<open>generateAuthQuery\<close> (the only one the call builds) has the \<open>path\<close> parameter with one
  value: the coordinates' string forms with \<open>|\<close> between consecutive ones, in the order of
  the input. In SpeedLimits with an empty Path (and a place id, so that the request is
  valid) the code sets no \<open>path\<close> parameter: the query has what the request URL's own
  query had under that key, which is nothing for a URL without one.
\<close>

theorem path_parameter:
  "(http_NewRequest env ''GET'' (roads_baseURL c @ ''/v1/snapToRoads'') = Inr req \<longrightarrow>
      SnapToRoadRequest.Path r \<noteq> [] \<longrightarrow>
        auth_queries (snd (SnapToRoad env c ctx sched pick r)) = [snapToRoadQuery env req r] \<and>
        snapToRoadQuery env req r ''path'' =
          Some [joined_by ''|'' (map (LatLng_String env) (SnapToRoadRequest.Path r))])
   \<and> (http_NewRequest env ''GET'' (roads_baseURL c @ ''/v1/speedLimits'') = Inr req' \<longrightarrow>
      SpeedLimitsRequest.Path r' \<noteq> [] \<longrightarrow>
        auth_queries (snd (SpeedLimits env c ctx sched pick r')) = [speedLimitsQuery env req' r'] \<and>
        speedLimitsQuery env req' r' ''path'' =
          Some [joined_by ''|'' (map (LatLng_String env) (SpeedLimitsRequest.Path r'))])
   \<and> (http_NewRequest env ''GET'' (roads_baseURL c @ ''/v1/speedLimits'') = Inr req' \<longrightarrow>
      SpeedLimitsRequest.Path r' = [] \<longrightarrow> SpeedLimitsRequest.PlaceID r' \<noteq> [] \<longrightarrow>
        auth_queries (snd (SpeedLimits env c ctx sched pick r')) = [speedLimitsQuery env req' r'] \<and>
        speedLimitsQuery env req' r' ''path'' = URL_Query env req' ''path'' \<and>
        (URL_Query env req' ''path'' = None \<longrightarrow> speedLimitsQuery env req' r' ''path'' = None))"
proof (intro conjI impI)
  assume "http_NewRequest env ''GET'' (roads_baseURL c @ ''/v1/snapToRoads'') = Inr req"
    and "SnapToRoadRequest.Path r \<noteq> []"
  then show "auth_queries (snd (SnapToRoad env c ctx sched pick r)) = [snapToRoadQuery env req r]"
    by (simp add: SnapToRoad_proceeds doGetSnapToRoad_auth_queries)
next
  show "snapToRoadQuery env req r ''path'' =
      Some [joined_by ''|'' (map (LatLng_String env) (SnapToRoadRequest.Path r))]"
    by (rule snapToRoadQuery_path)
next
  assume "http_NewRequest env ''GET'' (roads_baseURL c @ ''/v1/speedLimits'') = Inr req'"
    and "SpeedLimitsRequest.Path r' \<noteq> []"
  then show "auth_queries (snd (SpeedLimits env c ctx sched pick r')) = [speedLimitsQuery env req' r']"
    by (simp add: SpeedLimits_proceeds doGetSpeedLimits_auth_queries)
next
  assume "SpeedLimitsRequest.Path r' \<noteq> []"
  then show "speedLimitsQuery env req' r' ''path'' =
      Some [joined_by ''|'' (map (LatLng_String env) (SpeedLimitsRequest.Path r'))]"
    by (simp add: speedLimitsQuery_path)
next
  assume "http_NewRequest env ''GET'' (roads_baseURL c @ ''/v1/speedLimits'') = Inr req'"
    and "SpeedLimitsRequest.PlaceID r' \<noteq> []"
  then show "auth_queries (snd (SpeedLimits env c ctx sched pick r')) = [speedLimitsQuery env req' r']"
    by (simp add: SpeedLimits_proceeds doGetSpeedLimits_auth_queries)
next
  assume "SpeedLimitsRequest.Path r' = []"
  then show "speedLimitsQuery env req' r' ''path'' = URL_Query env req' ''path''"
    by (simp add: speedLimitsQuery_path)
next
  assume "SpeedLimitsRequest.Path r' = []" and "URL_Query env req' ''path'' = None"
  then show "speedLimitsQuery env req' r' ''path'' = None"
    by (simp add: speedLimitsQuery_path)
qed

text \<open>
  Three coordinates in SnapToRoad, two in SpeedLimits, and a SpeedLimits request with place
  ids only, on the stub client.
\<close>

theorem path_parameter_witness:
  "snapToRoadQuery stub_Env
       snapToRoads_Request
       \<lparr>SnapToRoadRequest.Path = [(''1'', ''2''), (''3'', ''4''), (''5'', ''6'')], Interpolate = False\<rparr>
       ''path'' = Some [''1,2|3,4|5,6'']
   \<and> speedLimitsQuery stub_Env
       speedLimits_Request
       stub_SpeedLimitsRequest ''path'' = Some [''1,2|3,4'']
   \<and> speedLimitsQuery stub_Env
       speedLimits_Request
       \<lparr>SpeedLimitsRequest.Path = [], SpeedLimitsRequest.PlaceID = [''a''], SpeedLimitsRequest.Units = []\<rparr>
       ''path'' = None"
  using path_parameter
    [where env = stub_Env and c = "stub_Client body_indexed" and ctx = stub_Context
       and sched = "[Select_reached, Worker_sends]" and pick = Case_chResult
       and req = snapToRoads_Request
       and r = "\<lparr>SnapToRoadRequest.Path = [(''1'', ''2''), (''3'', ''4''), (''5'', ''6'')], Interpolate = False\<rparr>"
       and req' = speedLimits_Request
       and r' = stub_SpeedLimitsRequest]
    path_parameter
    [where env = stub_Env and c = "stub_Client body_indexed" and ctx = stub_Context
       and sched = "[Select_reached, Worker_sends]" and pick = Case_chResult
       and req' = speedLimits_Request
       and r' = "\<lparr>SpeedLimitsRequest.Path = [], SpeedLimitsRequest.PlaceID = [''a''], SpeedLimitsRequest.Units = []\<rparr>"]
  by (simp add: stub_snapToRoads_request stub_speedLimits_request stub_URL_Query_empty
      stub_LatLng_String_pair stub_SpeedLimitsRequest_def)

text \<open>
  C5. For every SpeedLimitsRequest that passes validation, the values of the query's
  \<open>placeId\<close> parameter are those the request URL had, followed by the entries of PlaceID:
  one value per entry, in input order, duplicates kept. For a URL without a \<open>placeId\<close> of
  its own the values are exactly PlaceID, and the parameter is absent when PlaceID is
  empty.
\<close>

theorem placeId_parameters:
  assumes "http_NewRequest env ''GET'' (roads_baseURL c @ ''/v1/speedLimits'') = Inr req"
    and "SpeedLimitsRequest.Path r \<noteq> [] \<or> SpeedLimitsRequest.PlaceID r \<noteq> []"
  shows "auth_queries (snd (SpeedLimits env c ctx sched pick r)) = [speedLimitsQuery env req r] \<and>
         Values_index (speedLimitsQuery env req r) ''placeId'' =
           Values_index (URL_Query env req) ''placeId'' @ SpeedLimitsRequest.PlaceID r \<and>
         (URL_Query env req ''placeId'' = None \<longrightarrow>
            Values_index (speedLimitsQuery env req r) ''placeId'' = SpeedLimitsRequest.PlaceID r \<and>
            speedLimitsQuery env req r ''placeId'' =
              (if SpeedLimitsRequest.PlaceID r = [] then None else Some (SpeedLimitsRequest.PlaceID r)))"
proof (intro conjI impI)
  show "auth_queries (snd (SpeedLimits env c ctx sched pick r)) = [speedLimitsQuery env req r]"
    using assms by (simp add: SpeedLimits_proceeds doGetSpeedLimits_auth_queries)
  show "Values_index (speedLimitsQuery env req r) ''placeId'' =
      Values_index (URL_Query env req) ''placeId'' @ SpeedLimitsRequest.PlaceID r"
    by (simp add: Values_index_def speedLimitsQuery_placeId)
  assume "URL_Query env req ''placeId'' = None"
  then show "Values_index (speedLimitsQuery env req r) ''placeId'' = SpeedLimitsRequest.PlaceID r"
    and "speedLimitsQuery env req r ''placeId'' =
      (if SpeedLimitsRequest.PlaceID r = [] then None else Some (SpeedLimitsRequest.PlaceID r))"
    by (simp_all add: Values_index_def speedLimitsQuery_placeId)
qed

text \<open>
  PlaceID = ["a","b"] gives the two values "a", "b"; ["a","b","a"] keeps the
  duplicate.
\<close>

theorem placeId_parameters_witness:
  "speedLimitsQuery stub_Env speedLimits_Request
       \<lparr>SpeedLimitsRequest.Path = [], SpeedLimitsRequest.PlaceID = [''a'', ''b''], SpeedLimitsRequest.Units = []\<rparr>
       ''placeId'' = Some [''a'', ''b'']
   \<and> speedLimitsQuery stub_Env speedLimits_Request stub_SpeedLimitsRequest ''placeId'' =
       Some [''a'', ''b'', ''a'']"
  using placeId_parameters
    [where env = stub_Env and c = "stub_Client body_indexed" and ctx = stub_Context
       and sched = "[Select_reached, Worker_sends]" and pick = Case_chResult
       and req = speedLimits_Request
       and r = "\<lparr>SpeedLimitsRequest.Path = [], SpeedLimitsRequest.PlaceID = [''a'', ''b''], SpeedLimitsRequest.Units = []\<rparr>"]
    placeId_parameters
    [where env = stub_Env and c = "stub_Client body_indexed" and ctx = stub_Context
       and sched = "[Select_reached, Worker_sends]" and pick = Case_chResult
       and req = speedLimits_Request and r = stub_SpeedLimitsRequest]
  by (simp add: stub_speedLimits_request stub_URL_Query_empty stub_SpeedLimitsRequest_def)

text \<open>
  C6. For every SpeedLimitsRequest that passes validation, on a request URL without a
  \<open>units\<close> parameter of its own, the query has a \<open>units\<close> parameter if and only if Units
  is not the empty string, and its only value is then the Units string.
\<close>

theorem units_parameter:
  assumes "http_NewRequest env ''GET'' (roads_baseURL c @ ''/v1/speedLimits'') = Inr req"
    and "SpeedLimitsRequest.Path r \<noteq> [] \<or> SpeedLimitsRequest.PlaceID r \<noteq> []"
    and "URL_Query env req ''units'' = None"
  shows "auth_queries (snd (SpeedLimits env c ctx sched pick r)) = [speedLimitsQuery env req r] \<and>
         (speedLimitsQuery env req r ''units'' \<noteq> None \<longleftrightarrow> SpeedLimitsRequest.Units r \<noteq> []) \<and>
         speedLimitsQuery env req r ''units'' =
           (if SpeedLimitsRequest.Units r = [] then None else Some [SpeedLimitsRequest.Units r])"
  using assms
  by (simp add: SpeedLimits_proceeds doGetSpeedLimits_auth_queries speedLimitsQuery_units)

text \<open>
  Units = "MPH" is sent; Units unset sends no \<open>units\<close> parameter.
\<close>

theorem units_parameter_witness:
  "speedLimitsQuery stub_Env speedLimits_Request stub_SpeedLimitsRequest ''units'' = Some [''MPH'']
   \<and> speedLimitsQuery stub_Env speedLimits_Request
       \<lparr>SpeedLimitsRequest.Path = [], SpeedLimitsRequest.PlaceID = [''p1''], SpeedLimitsRequest.Units = []\<rparr>
       ''units'' = None"
  using units_parameter
    [where env = stub_Env and c = "stub_Client body_indexed" and ctx = stub_Context
       and sched = "[Select_reached, Worker_sends]" and pick = Case_chResult
       and req = speedLimits_Request and r = stub_SpeedLimitsRequest]
    units_parameter
    [where env = stub_Env and c = "stub_Client body_indexed" and ctx = stub_Context
       and sched = "[Select_reached, Worker_sends]" and pick = Case_chResult
       and req = speedLimits_Request
       and r = "\<lparr>SpeedLimitsRequest.Path = [], SpeedLimitsRequest.PlaceID = [''p1''], SpeedLimitsRequest.Units = []\<rparr>"]
  by (simp add: stub_speedLimits_request stub_URL_Query_empty stub_SpeedLimitsRequest_def)

text \<open>
  C10. SpeedLimits does not validate Units. Whether a request is rejected does not depend
  on Units: a request with empty Path and PlaceID gets the same answer whatever Units is;
  and for a request with a Path or a PlaceID and any non-empty Units string \<open>u\<close>, the
  worker is started and the query it builds has \<open>units\<close> with the single value \<open>u\<close>.
\<close>

theorem units_not_validated:
  "(SpeedLimitsRequest.Path r = [] \<and> SpeedLimitsRequest.PlaceID r = [] \<longrightarrow>
      SpeedLimits env c ctx sched pick (r\<lparr>SpeedLimitsRequest.Units := u\<rparr>) =
        SpeedLimits env c ctx sched pick r)
   \<and> (SpeedLimitsRequest.Path r \<noteq> [] \<or> SpeedLimitsRequest.PlaceID r \<noteq> [] \<longrightarrow> u \<noteq> [] \<longrightarrow>
        snd (SpeedLimits env c ctx sched pick (r\<lparr>SpeedLimitsRequest.Units := u\<rparr>)) =
          Go_worker # snd (doGetSpeedLimits env c (r\<lparr>SpeedLimitsRequest.Units := u\<rparr>)) \<and>
        (http_NewRequest env ''GET'' (roads_baseURL c @ ''/v1/speedLimits'') = Inr req \<longrightarrow>
           auth_queries (snd (SpeedLimits env c ctx sched pick (r\<lparr>SpeedLimitsRequest.Units := u\<rparr>))) =
             [speedLimitsQuery env req (r\<lparr>SpeedLimitsRequest.Units := u\<rparr>)] \<and>
           speedLimitsQuery env req (r\<lparr>SpeedLimitsRequest.Units := u\<rparr>) ''units'' = Some [u]))"
proof (intro conjI impI)
  assume "SpeedLimitsRequest.Path r = [] \<and> SpeedLimitsRequest.PlaceID r = []"
  then show "SpeedLimits env c ctx sched pick (r\<lparr>SpeedLimitsRequest.Units := u\<rparr>) =
      SpeedLimits env c ctx sched pick r"
    by (simp add: SpeedLimits_def)
next
  assume valid: "SpeedLimitsRequest.Path r \<noteq> [] \<or> SpeedLimitsRequest.PlaceID r \<noteq> []"
  then have valid': "SpeedLimitsRequest.Path (r\<lparr>SpeedLimitsRequest.Units := u\<rparr>) \<noteq> [] \<or>
      SpeedLimitsRequest.PlaceID (r\<lparr>SpeedLimitsRequest.Units := u\<rparr>) \<noteq> []"
    by simp
  show "snd (SpeedLimits env c ctx sched pick (r\<lparr>SpeedLimitsRequest.Units := u\<rparr>)) =
      Go_worker # snd (doGetSpeedLimits env c (r\<lparr>SpeedLimitsRequest.Units := u\<rparr>))"
    by (simp add: SpeedLimits_proceeds [OF valid'])
  assume "http_NewRequest env ''GET'' (roads_baseURL c @ ''/v1/speedLimits'') = Inr req"
  then show "auth_queries (snd (SpeedLimits env c ctx sched pick (r\<lparr>SpeedLimitsRequest.Units := u\<rparr>))) =
      [speedLimitsQuery env req (r\<lparr>SpeedLimitsRequest.Units := u\<rparr>)]"
    by (simp add: SpeedLimits_proceeds [OF valid'] doGetSpeedLimits_auth_queries)
next
  assume "u \<noteq> []"
  then show "speedLimitsQuery env req (r\<lparr>SpeedLimitsRequest.Units := u\<rparr>) ''units'' = Some [u]"
    by (simp add: speedLimitsQuery_units)
qed

text \<open>
  Units = "furlongs": rejected exactly as without Units when there is nothing to look up,
  sent verbatim otherwise.
\<close>

theorem units_not_validated_witness:
  "SpeedLimits stub_Env (stub_Client body_indexed) stub_Context [Select_reached, Worker_sends] Case_chResult
       \<lparr>SpeedLimitsRequest.Path = [], SpeedLimitsRequest.PlaceID = [], SpeedLimitsRequest.Units = ''furlongs''\<rparr> =
     SpeedLimits stub_Env (stub_Client body_indexed) stub_Context [Select_reached, Worker_sends] Case_chResult
       \<lparr>SpeedLimitsRequest.Path = [], SpeedLimitsRequest.PlaceID = [], SpeedLimitsRequest.Units = []\<rparr>
   \<and> speedLimitsQuery stub_Env speedLimits_Request
       \<lparr>SpeedLimitsRequest.Path = [], SpeedLimitsRequest.PlaceID = [''p1''], SpeedLimitsRequest.Units = ''furlongs''\<rparr>
       ''units'' = Some [''furlongs'']"
  using units_not_validated
    [where env = stub_Env and c = "stub_Client body_indexed" and ctx = stub_Context
       and sched = "[Select_reached, Worker_sends]" and pick = Case_chResult
       and r = "\<lparr>SpeedLimitsRequest.Path = [], SpeedLimitsRequest.PlaceID = [], SpeedLimitsRequest.Units = []\<rparr>"
       and u = "''furlongs''"]
    units_not_validated
    [where env = stub_Env and c = "stub_Client body_indexed" and ctx = stub_Context
       and sched = "[Select_reached, Worker_sends]" and pick = Case_chResult
       and req = speedLimits_Request
       and r = "\<lparr>SpeedLimitsRequest.Path = [], SpeedLimitsRequest.PlaceID = [''p1''], SpeedLimitsRequest.Units = []\<rparr>"
       and u = "''furlongs''"]
  by (simp add: stub_speedLimits_request)

subsection \<open>Errors\<close>

text \<open>
  C1 (the code departs from the claim). When the decoder reports an error the operation
  returns that error together with a non-nil response: \<open>return response, err\<close> on the last
  line of both workers, where every other error path returns \<open>nil, err\<close>. On a body that
  ends inside the value the response is the empty struct the code allocated; on a body with
  a string where the integer belongs it is the partly decoded result (the place id is
  filled in). The same holds in SpeedLimits.
\<close>

theorem decode_error_returns_response:
  "fst (SnapToRoad stub_Env (stub_Client body_truncated) stub_Context [Select_reached, Worker_sends]
          Case_chResult stub_SnapToRoadRequest) =
     Some (Some \<lparr>SnapToRoadResponse.SnappedPoints = []\<rparr>, Some (errors_New ''unexpected EOF''))
   \<and> fst (SnapToRoad stub_Env (stub_Client body_mistyped) stub_Context [Select_reached, Worker_sends]
          Case_chResult stub_SnapToRoadRequest) =
     Some (Some \<lparr>SnapToRoadResponse.SnappedPoints =
              [\<lparr>Location = (''0'', ''0''), OriginalIndex = Some 0, SnappedPoint.PlaceID = ''p1''\<rparr>]\<rparr>,
           Some (json_UnmarshalTypeError ''string'' ''int''))
   \<and> fst (SpeedLimits stub_Env (stub_Client body_truncated) stub_Context [Select_reached, Worker_sends]
          Case_chResult stub_SpeedLimitsRequest) =
     Some (Some \<lparr>SpeedLimitsResponse.SpeedLimits = [], SpeedLimitsResponse.SnappedPoints = []\<rparr>,
           Some (errors_New ''unexpected EOF''))"
proof (intro conjI)
  have snap: "SnapToRoadRequest.Path stub_SnapToRoadRequest \<noteq> []"
    by (simp add: stub_SnapToRoadRequest_def)
  have speed: "SpeedLimitsRequest.Path stub_SpeedLimitsRequest \<noteq> [] \<or>
      SpeedLimitsRequest.PlaceID stub_SpeedLimitsRequest \<noteq> []"
    by (simp add: stub_SpeedLimitsRequest_def)
  show "fst (SnapToRoad stub_Env (stub_Client body_truncated) stub_Context [Select_reached, Worker_sends]
          Case_chResult stub_SnapToRoadRequest) =
     Some (Some \<lparr>SnapToRoadResponse.SnappedPoints = []\<rparr>, Some (errors_New ''unexpected EOF''))"
    by (simp add: SnapToRoad_proceeds [OF snap] stub_doGetSnapToRoad decode_body_truncated
        select_race_send_then_select)
  show "fst (SnapToRoad stub_Env (stub_Client body_mistyped) stub_Context [Select_reached, Worker_sends]
          Case_chResult stub_SnapToRoadRequest) =
     Some (Some \<lparr>SnapToRoadResponse.SnappedPoints =
              [\<lparr>Location = (''0'', ''0''), OriginalIndex = Some 0, SnappedPoint.PlaceID = ''p1''\<rparr>]\<rparr>,
           Some (json_UnmarshalTypeError ''string'' ''int''))"
    by (simp add: SnapToRoad_proceeds [OF snap] stub_doGetSnapToRoad decode_body_mistyped
        select_race_send_then_select)
  show "fst (SpeedLimits stub_Env (stub_Client body_truncated) stub_Context [Select_reached, Worker_sends]
          Case_chResult stub_SpeedLimitsRequest) =
     Some (Some \<lparr>SpeedLimitsResponse.SpeedLimits = [], SpeedLimitsResponse.SnappedPoints = []\<rparr>,
           Some (errors_New ''unexpected EOF''))"
    by (simp add: SpeedLimits_proceeds [OF speed] stub_doGetSpeedLimits body_truncated_def
        select_race_send_then_select)
qed

text \<open>
  C7. When \<open>generateAuthQuery\<close> returns an error for the query the worker built, the worker
  returns exactly that error with a nil response, and its only effect is that one call: no
  \<open>httpDo\<close>. The operation as a whole makes no \<open>httpDo\<close> call either; what it returns is
  that error, or the context's error if \<open>Done\<close> wins the select, and it is that error in
  every run in which the context is not cancelled and both the caller and the worker get
  to the channel. For SnapToRoad and for SpeedLimits.
\<close>

theorem auth_error_propagated:
  "(http_NewRequest env ''GET'' (roads_baseURL c @ ''/v1/snapToRoads'') = Inr req \<longrightarrow>
    generateAuthQuery c (URL_Path req) (snapToRoadQuery env req r) False = Inl e \<longrightarrow>
      doGetSnapToRoad env c r =
        ((None, Some e), [Call_generateAuthQuery (URL_Path req) (snapToRoadQuery env req r) False]) \<and>
      filter is_httpDo (snd (SnapToRoad env c ctx sched pick r)) = [] \<and>
      (SnapToRoadRequest.Path r \<noteq> [] \<longrightarrow>
         fst (SnapToRoad env c ctx sched pick r)
           \<in> {None, Some (None, Some e), Some (None, Some (Err ctx))} \<and>
         (Ctx_Done \<notin> set sched \<longrightarrow> Select_reached \<in> set sched \<longrightarrow> Worker_sends \<in> set sched \<longrightarrow>
            fst (SnapToRoad env c ctx sched pick r) = Some (None, Some e))))
   \<and> (http_NewRequest env ''GET'' (roads_baseURL c @ ''/v1/speedLimits'') = Inr req' \<longrightarrow>
    generateAuthQuery c (URL_Path req') (speedLimitsQuery env req' r') False = Inl e' \<longrightarrow>
      doGetSpeedLimits env c r' =
        ((None, Some e'), [Call_generateAuthQuery (URL_Path req') (speedLimitsQuery env req' r') False]) \<and>
      filter is_httpDo (snd (SpeedLimits env c ctx sched pick r')) = [] \<and>
      (SpeedLimitsRequest.Path r' \<noteq> [] \<or> SpeedLimitsRequest.PlaceID r' \<noteq> [] \<longrightarrow>
         fst (SpeedLimits env c ctx sched pick r')
           \<in> {None, Some (None, Some e'), Some (None, Some (Err ctx))} \<and>
         (Ctx_Done \<notin> set sched \<longrightarrow> Select_reached \<in> set sched \<longrightarrow> Worker_sends \<in> set sched \<longrightarrow>
            fst (SpeedLimits env c ctx sched pick r') = Some (None, Some e'))))"
proof (intro conjI impI)
  assume req: "http_NewRequest env ''GET'' (roads_baseURL c @ ''/v1/snapToRoads'') = Inr req"
    and auth: "generateAuthQuery c (URL_Path req) (snapToRoadQuery env req r) False = Inl e"
  note worker = doGetSnapToRoad_auth_error [OF req auth]
  show "doGetSnapToRoad env c r =
      ((None, Some e), [Call_generateAuthQuery (URL_Path req) (snapToRoadQuery env req r) False])"
    by (rule worker)
  show "filter is_httpDo (snd (SnapToRoad env c ctx sched pick r)) = []"
    by (simp add: SnapToRoad_def worker)
  assume path: "SnapToRoadRequest.Path r \<noteq> []"
  show "fst (SnapToRoad env c ctx sched pick r)
      \<in> {None, Some (None, Some e), Some (None, Some (Err ctx))}"
    using select_race_outcomes [of "(None, Some e)" "(None, Some (Err ctx))" pick sched]
    by (simp add: SnapToRoad_proceeds [OF path] worker)
  assume "Ctx_Done \<notin> set sched" and "Select_reached \<in> set sched" and "Worker_sends \<in> set sched"
  then show "fst (SnapToRoad env c ctx sched pick r) = Some (None, Some e)"
    by (simp add: SnapToRoad_proceeds [OF path] worker select_race_not_cancelled)
next
  assume req: "http_NewRequest env ''GET'' (roads_baseURL c @ ''/v1/speedLimits'') = Inr req'"
    and auth: "generateAuthQuery c (URL_Path req') (speedLimitsQuery env req' r') False = Inl e'"
  note worker = doGetSpeedLimits_auth_error [OF req auth]
  show "doGetSpeedLimits env c r' =
      ((None, Some e'), [Call_generateAuthQuery (URL_Path req') (speedLimitsQuery env req' r') False])"
    by (rule worker)
  show "filter is_httpDo (snd (SpeedLimits env c ctx sched pick r')) = []"
    by (simp add: SpeedLimits_def worker)
  assume valid: "SpeedLimitsRequest.Path r' \<noteq> [] \<or> SpeedLimitsRequest.PlaceID r' \<noteq> []"
  show "fst (SpeedLimits env c ctx sched pick r')
      \<in> {None, Some (None, Some e'), Some (None, Some (Err ctx))}"
    using select_race_outcomes [of "(None, Some e')" "(None, Some (Err ctx))" pick sched]
    by (simp add: SpeedLimits_proceeds [OF valid] worker)
  assume "Ctx_Done \<notin> set sched" and "Select_reached \<in> set sched" and "Worker_sends \<in> set sched"
  then show "fst (SpeedLimits env c ctx sched pick r') = Some (None, Some e')"
    by (simp add: SpeedLimits_proceeds [OF valid] worker select_race_not_cancelled)
qed

text \<open>
  A client without a key, whose \<open>generateAuthQuery\<close> fails: both operations return its
  error, having started the worker and asked for the query, and nothing else.
\<close>

theorem auth_error_propagated_witness:
  "SnapToRoad stub_Env (unsigned_Client body_indexed) stub_Context [Select_reached, Worker_sends]
       Case_chResult stub_SnapToRoadRequest =
     (Some (None, Some (errors_New ''maps: API Key missing'')),
      [Go_worker,
       Call_generateAuthQuery ''//v1/snapToRoads''
         (snapToRoadQuery stub_Env snapToRoads_Request stub_SnapToRoadRequest) False])
   \<and> SpeedLimits stub_Env (unsigned_Client body_indexed) stub_Context [Select_reached, Worker_sends]
       Case_chResult stub_SpeedLimitsRequest =
     (Some (None, Some (errors_New ''maps: API Key missing'')),
      [Go_worker,
       Call_generateAuthQuery ''//v1/speedLimits''
         (speedLimitsQuery stub_Env speedLimits_Request stub_SpeedLimitsRequest) False])"
proof -
  have snap: "SnapToRoadRequest.Path stub_SnapToRoadRequest \<noteq> []"
    by (simp add: stub_SnapToRoadRequest_def)
  have speed: "SpeedLimitsRequest.Path stub_SpeedLimitsRequest \<noteq> [] \<or>
      SpeedLimitsRequest.PlaceID stub_SpeedLimitsRequest \<noteq> []"
    by (simp add: stub_SpeedLimitsRequest_def)
  have paths: "URL_Path snapToRoads_Request = ''//v1/snapToRoads''"
    "URL_Path speedLimits_Request = ''//v1/speedLimits''"
    by (simp_all add: snapToRoads_Request_def speedLimits_Request_def)
  note inst = auth_error_propagated
      [where env = stub_Env and c = "unsigned_Client body_indexed" and ctx = stub_Context
         and sched = "[Select_reached, Worker_sends]" and pick = Case_chResult
         and req = snapToRoads_Request and r = stub_SnapToRoadRequest
         and e = "errors_New ''maps: API Key missing''"
         and req' = speedLimits_Request and r' = stub_SpeedLimitsRequest
         and e' = "errors_New ''maps: API Key missing''"]
  note snap_worker = inst [THEN conjunct1, rule_format,
      OF unsigned_snapToRoads_request unsigned_generateAuthQuery, THEN conjunct1]
  note speed_worker = inst [THEN conjunct2, rule_format,
      OF unsigned_speedLimits_request unsigned_generateAuthQuery, THEN conjunct1]
  show ?thesis
    by (simp add: SnapToRoad_proceeds [OF snap] SpeedLimits_proceeds [OF speed]
        snap_worker speed_worker paths select_race_send_then_select)
qed

subsection \<open>Cancellation\<close>

text \<open>
  C9 as stated fails: \<open>Done\<close> is closed first, the worker then has its result, and the
  caller reaches the select only after both. Both cases can proceed, Go takes either, and
  with the channel case taken the caller gets the successful response although the
  cancellation fired before the network call delivered anything.
\<close>

theorem cancellation_race_counterexample:
  "cancelled_first [Ctx_Done, Worker_sends, Select_reached] \<and>
   fst (SnapToRoad stub_Env (stub_Client body_indexed) stub_Context
          [Ctx_Done, Worker_sends, Select_reached] Case_chResult stub_SnapToRoadRequest) =
     Some (Some \<lparr>SnapToRoadResponse.SnappedPoints =
              [\<lparr>Location = (''1'', ''2''), OriginalIndex = Some 0, SnappedPoint.PlaceID = ''p1''\<rparr>]\<rparr>,
           None)"
proof
  show "cancelled_first [Ctx_Done, Worker_sends, Select_reached]"
    by (simp add: cancelled_first_def)
  have snap: "SnapToRoadRequest.Path stub_SnapToRoadRequest \<noteq> []"
    by (simp add: stub_SnapToRoadRequest_def)
  show "fst (SnapToRoad stub_Env (stub_Client body_indexed) stub_Context
          [Ctx_Done, Worker_sends, Select_reached] Case_chResult stub_SnapToRoadRequest) =
     Some (Some \<lparr>SnapToRoadResponse.SnappedPoints =
              [\<lparr>Location = (''1'', ''2''), OriginalIndex = Some 0, SnappedPoint.PlaceID = ''p1''\<rparr>]\<rparr>,
           None)"
    by (simp add: SnapToRoad_proceeds [OF snap] stub_doGetSnapToRoad decode_body_indexed
        select_race_cancel_send_select)
qed

text \<open>
  C9, amended. In every run of a validated request the caller gets, if anything, exactly
  one of the worker's own result and \<open>(nil, ctx.Err())\<close>. If the caller has reached the
  select and \<open>Done\<close> is closed, both before the worker has its result to send, the caller
  gets \<open>(nil, ctx.Err())\<close>, whatever the worker produces later. If both \<open>Done\<close> is closed
  and the worker is ready to send before the caller reaches the select, the caller gets
  whichever of the two the select picks. For SnapToRoad and for SpeedLimits.
\<close>

theorem cancellation_race:
  "(SnapToRoadRequest.Path r \<noteq> [] \<longrightarrow>
      fst (SnapToRoad env c ctx sched pick r)
        \<in> {None, Some (fst (doGetSnapToRoad env c r)), Some (None, Some (Err ctx))} \<and>
      (Select_reached \<in> set pre \<longrightarrow> Ctx_Done \<in> set pre \<longrightarrow> Worker_sends \<notin> set pre \<longrightarrow>
         fst (SnapToRoad env c ctx (pre @ post) pick r) = Some (None, Some (Err ctx))) \<and>
      (Select_reached \<notin> set pre \<longrightarrow> Ctx_Done \<in> set pre \<longrightarrow> Worker_sends \<in> set pre \<longrightarrow>
         fst (SnapToRoad env c ctx (pre @ Select_reached # post) pick r) =
           Some (case pick of Case_chResult \<Rightarrow> fst (doGetSnapToRoad env c r)
                 | Case_ctxDone \<Rightarrow> (None, Some (Err ctx)))))
   \<and> (SpeedLimitsRequest.Path r' \<noteq> [] \<or> SpeedLimitsRequest.PlaceID r' \<noteq> [] \<longrightarrow>
      fst (SpeedLimits env c ctx sched pick r')
        \<in> {None, Some (fst (doGetSpeedLimits env c r')), Some (None, Some (Err ctx))} \<and>
      (Select_reached \<in> set pre \<longrightarrow> Ctx_Done \<in> set pre \<longrightarrow> Worker_sends \<notin> set pre \<longrightarrow>
         fst (SpeedLimits env c ctx (pre @ post) pick r') = Some (None, Some (Err ctx))) \<and>
      (Select_reached \<notin> set pre \<longrightarrow> Ctx_Done \<in> set pre \<longrightarrow> Worker_sends \<in> set pre \<longrightarrow>
         fst (SpeedLimits env c ctx (pre @ Select_reached # post) pick r') =
           Some (case pick of Case_chResult \<Rightarrow> fst (doGetSpeedLimits env c r')
                 | Case_ctxDone \<Rightarrow> (None, Some (Err ctx)))))"
proof (intro conjI impI)
  assume path: "SnapToRoadRequest.Path r \<noteq> []"
  show "fst (SnapToRoad env c ctx sched pick r)
      \<in> {None, Some (fst (doGetSnapToRoad env c r)), Some (None, Some (Err ctx))}"
    using select_race_outcomes [of "fst (doGetSnapToRoad env c r)" "(None, Some (Err ctx))" pick sched]
    by (simp add: SnapToRoad_proceeds [OF path])
  {
    assume "Select_reached \<in> set pre" and "Ctx_Done \<in> set pre" and "Worker_sends \<notin> set pre"
    then show "fst (SnapToRoad env c ctx (pre @ post) pick r) = Some (None, Some (Err ctx))"
      by (simp add: SnapToRoad_proceeds [OF path] select_race_cancelled)
  }
  {
    assume "Select_reached \<notin> set pre" and "Ctx_Done \<in> set pre" and "Worker_sends \<in> set pre"
    then show "fst (SnapToRoad env c ctx (pre @ Select_reached # post) pick r) =
        Some (case pick of Case_chResult \<Rightarrow> fst (doGetSnapToRoad env c r)
              | Case_ctxDone \<Rightarrow> (None, Some (Err ctx)))"
      by (simp add: SnapToRoad_proceeds [OF path] select_race_both_ready)
  }
next
  assume valid: "SpeedLimitsRequest.Path r' \<noteq> [] \<or> SpeedLimitsRequest.PlaceID r' \<noteq> []"
  show "fst (SpeedLimits env c ctx sched pick r')
      \<in> {None, Some (fst (doGetSpeedLimits env c r')), Some (None, Some (Err ctx))}"
    using select_race_outcomes [of "fst (doGetSpeedLimits env c r')" "(None, Some (Err ctx))" pick sched]
    by (simp add: SpeedLimits_proceeds [OF valid])
  {
    assume "Select_reached \<in> set pre" and "Ctx_Done \<in> set pre" and "Worker_sends \<notin> set pre"
    then show "fst (SpeedLimits env c ctx (pre @ post) pick r') = Some (None, Some (Err ctx))"
      by (simp add: SpeedLimits_proceeds [OF valid] select_race_cancelled)
  }
  {
    assume "Select_reached \<notin> set pre" and "Ctx_Done \<in> set pre" and "Worker_sends \<in> set pre"
    then show "fst (SpeedLimits env c ctx (pre @ Select_reached # post) pick r') =
        Some (case pick of Case_chResult \<Rightarrow> fst (doGetSpeedLimits env c r')
              | Case_ctxDone \<Rightarrow> (None, Some (Err ctx)))"
      by (simp add: SpeedLimits_proceeds [OF valid] select_race_both_ready)
  }
qed

text \<open>
  Runs on the stub transport, whose call succeeds: cancelled while the caller waits
  (either order of reaching the select and closing \<open>Done\<close>), and both ready with the
  \<open>Done\<close> case picked. All return the context's error.
\<close>

theorem cancellation_race_witness:
  "fst (SnapToRoad stub_Env (stub_Client body_indexed) stub_Context
          ([Select_reached, Ctx_Done] @ [Worker_sends]) Case_chResult stub_SnapToRoadRequest) =
     Some (None, Some (errors_New ''context canceled''))
   \<and> fst (SnapToRoad stub_Env (stub_Client body_indexed) stub_Context
          ([Ctx_Done, Worker_sends] @ Select_reached # []) Case_ctxDone stub_SnapToRoadRequest) =
     Some (None, Some (errors_New ''context canceled''))
   \<and> fst (SpeedLimits stub_Env (stub_Client body_indexed) stub_Context
          ([Ctx_Done, Select_reached] @ [Worker_sends]) Case_chResult stub_SpeedLimitsRequest) =
     Some (None, Some (errors_New ''context canceled''))
   \<and> fst (SpeedLimits stub_Env (stub_Client body_indexed) stub_Context
          ([Worker_sends, Ctx_Done] @ Select_reached # []) Case_ctxDone stub_SpeedLimitsRequest) =
     Some (None, Some (errors_New ''context canceled''))"
proof -
  have snap: "SnapToRoadRequest.Path stub_SnapToRoadRequest \<noteq> []"
    by (simp add: stub_SnapToRoadRequest_def)
  have speed: "SpeedLimitsRequest.Path stub_SpeedLimitsRequest \<noteq> [] \<or>
      SpeedLimitsRequest.PlaceID stub_SpeedLimitsRequest \<noteq> []"
    by (simp add: stub_SpeedLimitsRequest_def)
  have err: "Err stub_Context = errors_New ''context canceled''"
    by (simp add: stub_Context_def)
  note blocked = cancellation_race
      [where env = stub_Env and c = "stub_Client body_indexed" and ctx = stub_Context
         and pick = Case_chResult and r = stub_SnapToRoadRequest and r' = stub_SpeedLimitsRequest
         and pre = "[Select_reached, Ctx_Done]" and post = "[Worker_sends]"]
  note blocked' = cancellation_race
      [where env = stub_Env and c = "stub_Client body_indexed" and ctx = stub_Context
         and pick = Case_chResult and r = stub_SnapToRoadRequest and r' = stub_SpeedLimitsRequest
         and pre = "[Ctx_Done, Select_reached]" and post = "[Worker_sends]"]
  note both = cancellation_race
      [where env = stub_Env and c = "stub_Client body_indexed" and ctx = stub_Context
         and pick = Case_ctxDone and r = stub_SnapToRoadRequest and r' = stub_SpeedLimitsRequest
         and pre = "[Ctx_Done, Worker_sends]" and post = "[]"]
  note both' = cancellation_race
      [where env = stub_Env and c = "stub_Client body_indexed" and ctx = stub_Context
         and pick = Case_ctxDone and r = stub_SnapToRoadRequest and r' = stub_SpeedLimitsRequest
         and pre = "[Worker_sends, Ctx_Done]" and post = "[]"]
  have "fst (SnapToRoad stub_Env (stub_Client body_indexed) stub_Context
          ([Select_reached, Ctx_Done] @ [Worker_sends]) Case_chResult stub_SnapToRoadRequest) =
     Some (None, Some (errors_New ''context canceled''))"
    using blocked [THEN conjunct1, rule_format, OF snap, THEN conjunct2, THEN conjunct1] err
    by simp
  moreover have "fst (SnapToRoad stub_Env (stub_Client body_indexed) stub_Context
          ([Ctx_Done, Worker_sends] @ Select_reached # []) Case_ctxDone stub_SnapToRoadRequest) =
     Some (None, Some (errors_New ''context canceled''))"
    using both [THEN conjunct1, rule_format, OF snap, THEN conjunct2, THEN conjunct2] err
    by simp
  moreover have "fst (SpeedLimits stub_Env (stub_Client body_indexed) stub_Context
          ([Ctx_Done, Select_reached] @ [Worker_sends]) Case_chResult stub_SpeedLimitsRequest) =
     Some (None, Some (errors_New ''context canceled''))"
    using blocked' [THEN conjunct2, rule_format, OF speed, THEN conjunct2, THEN conjunct1] err
    by simp
  moreover have "fst (SpeedLimits stub_Env (stub_Client body_indexed) stub_Context
          ([Worker_sends, Ctx_Done] @ Select_reached # []) Case_ctxDone stub_SpeedLimitsRequest) =
     Some (None, Some (errors_New ''context canceled''))"
    using both' [THEN conjunct2, rule_format, OF speed, THEN conjunct2, THEN conjunct2] err
    by simp
  ultimately show ?thesis by (intro conjI)
qed

subsection \<open>The decoded response\<close>

text \<open>
  C8 as stated, for every response body, fails. On a body that repeats the
  \<open>snappedPoints\<close> member the decoder stores the second array into the elements of the
  first, so the point \<open>{"placeId":"c"}\<close>, which has no index, comes back with the index of
  the first array's point, present and zero, and with no error. Inside a point a later
  member overwrites an earlier one, so a point with \<open>"originalIndex":0\<close> followed by
  \<open>"originalIndex":null\<close> comes back with the index absent. And a point without the
  \<open>originalIndex\<close> key comes back with an index when it has a key that equals the tag under
  case folding. All three through the whole operation, on the stub transport.
\<close>

theorem OriginalIndex_tri_state_counterexample:
  "fst (SnapToRoad stub_Env (stub_Client body_repeated) stub_Context [Select_reached, Worker_sends]
          Case_chResult stub_SnapToRoadRequest) =
     Some (Some \<lparr>SnapToRoadResponse.SnappedPoints =
              [\<lparr>Location = (''0'', ''0''), OriginalIndex = Some 0, SnappedPoint.PlaceID = ''c''\<rparr>]\<rparr>,
           None)
   \<and> fst (SnapToRoad stub_Env (stub_Client body_overwritten) stub_Context [Select_reached, Worker_sends]
          Case_chResult stub_SnapToRoadRequest) =
     Some (Some \<lparr>SnapToRoadResponse.SnappedPoints =
              [\<lparr>Location = (''0'', ''0''), OriginalIndex = None, SnappedPoint.PlaceID = []\<rparr>]\<rparr>,
           None)
   \<and> fst (SnapToRoad stub_Env (stub_Client body_folded) stub_Context [Select_reached, Worker_sends]
          Case_chResult stub_SnapToRoadRequest) =
     Some (Some \<lparr>SnapToRoadResponse.SnappedPoints =
              [\<lparr>Location = (''0'', ''0''), OriginalIndex = Some 7, SnappedPoint.PlaceID = []\<rparr>]\<rparr>,
           None)"
proof -
  have snap: "SnapToRoadRequest.Path stub_SnapToRoadRequest \<noteq> []"
    by (simp add: stub_SnapToRoadRequest_def)
  show ?thesis
    by (simp add: SnapToRoad_proceeds [OF snap] stub_doGetSnapToRoad decode_body_repeated
        decode_body_overwritten decode_body_folded select_race_send_then_select)
qed

text \<open>
  C8, amended. Take a response body that is a JSON object with exactly one member whose key
  selects \<open>snappedPoints\<close>, an array, decoded into the response the code allocates. The
  response has one SnappedPoint per element of the array. For an element that is an object
  with no member whose key selects the \<open>originalIndex\<close> field, OriginalIndex is absent
  (\<open>None\<close>, the nil pointer). For an element whose last member selecting that field is the
  number \<open>0\<close>, OriginalIndex is present and equal to 0 (\<open>Some 0\<close>). The two values differ,
  so the caller can tell them apart. (A key selects a field when it equals the field's tag
  exactly or under the decoder's case folding.)
\<close>

theorem OriginalIndex_tri_state:
  assumes "json_field casefold SnapToRoadResponse_tags k \<noteq> None"
    and "\<forall>m\<in>set (pre @ post). json_field casefold SnapToRoadResponse_tags (fst m) = None"
    and "resp = fst (json_Decode_SnapToRoadResponse casefold decLL z
            (Value (JObject (pre @ (k, JArray xs) # post)))
            \<lparr>SnapToRoadResponse.SnappedPoints = []\<rparr>)"
    and "i < length xs"
  shows "length (SnapToRoadResponse.SnappedPoints resp) = length xs \<and>
     (xs ! i = JObject ms \<longrightarrow>
        (\<forall>m\<in>set ms. json_field casefold SnappedPoint_tags (fst m) \<noteq> Some ''originalIndex'') \<longrightarrow>
        OriginalIndex (SnapToRoadResponse.SnappedPoints resp ! i) = None) \<and>
     (xs ! i = JObject (front @ (key, JNumber ''0'') # behind) \<longrightarrow>
        json_field casefold SnappedPoint_tags key = Some ''originalIndex'' \<longrightarrow>
        (\<forall>m\<in>set behind. json_field casefold SnappedPoint_tags (fst m) \<noteq> Some ''originalIndex'') \<longrightarrow>
        OriginalIndex (SnapToRoadResponse.SnappedPoints resp ! i) = Some 0)"
proof -
  have resp: "SnapToRoadResponse.SnappedPoints resp =
      map (\<lambda>x. fst (decode_SnappedPoint casefold decLL x (SnappedPoint_zero z))) xs"
    unfolding assms(3) Decode_single_array [OF assms(1,2)] by simp
  show ?thesis
    using assms(4)
    by (auto simp add: resp decode_SnappedPoint_absent decode_SnappedPoint_zero_index
        simp del: decode_SnappedPoint.simps)
qed

text \<open>
  The bodies of the end-to-end examples, with and without \<open>"originalIndex":0\<close>, and a body
  whose keys match the tags only under case folding.
\<close>

theorem OriginalIndex_tri_state_witness:
  "OriginalIndex (SnapToRoadResponse.SnappedPoints
       (fst (json_Decode_SnapToRoadResponse ascii_fold stub_decode_LatLng (''0'', ''0'') body_indexed
          \<lparr>SnapToRoadResponse.SnappedPoints = []\<rparr>)) ! 0) = Some 0
   \<and> OriginalIndex (SnapToRoadResponse.SnappedPoints
       (fst (json_Decode_SnapToRoadResponse ascii_fold stub_decode_LatLng (''0'', ''0'') body_interpolated
          \<lparr>SnapToRoadResponse.SnappedPoints = []\<rparr>)) ! 0) = None
   \<and> OriginalIndex (SnapToRoadResponse.SnappedPoints
       (fst (json_Decode_SnapToRoadResponse ascii_fold stub_decode_LatLng (''0'', ''0'')
          (Value (JObject [(''SnappedPoints'', JArray [JObject [(''ORIGINALINDEX'', JNumber ''0'')]])]))
          \<lparr>SnapToRoadResponse.SnappedPoints = []\<rparr>)) ! 0) = Some 0"
proof (intro conjI)
  show "OriginalIndex (SnapToRoadResponse.SnappedPoints
       (fst (json_Decode_SnapToRoadResponse ascii_fold stub_decode_LatLng (''0'', ''0'') body_indexed
          \<lparr>SnapToRoadResponse.SnappedPoints = []\<rparr>)) ! 0) = Some 0"
    using OriginalIndex_tri_state
      [where casefold = ascii_fold and decLL = stub_decode_LatLng and z = "(''0'', ''0'')"
         and k = "''snappedPoints''" and pre = "[]" and post = "[]" and i = 0
         and xs = "[JObject [(''location'', JObject [(''lat'', JNumber ''1''), (''lng'', JNumber ''2'')]),
                     (''originalIndex'', JNumber ''0''), (''placeId'', JString ''p1'')]]"
         and resp = "fst (json_Decode_SnapToRoadResponse ascii_fold stub_decode_LatLng (''0'', ''0'')
                       body_indexed \<lparr>SnapToRoadResponse.SnappedPoints = []\<rparr>)"
         and front = "[(''location'', JObject [(''lat'', JNumber ''1''), (''lng'', JNumber ''2'')])]"
         and key = "''originalIndex''" and behind = "[(''placeId'', JString ''p1'')]"]
    by (simp add: body_indexed_def exact_tags del: json_Decode_SnapToRoadResponse.simps)
  show "OriginalIndex (SnapToRoadResponse.SnappedPoints
       (fst (json_Decode_SnapToRoadResponse ascii_fold stub_decode_LatLng (''0'', ''0'') body_interpolated
          \<lparr>SnapToRoadResponse.SnappedPoints = []\<rparr>)) ! 0) = None"
    using OriginalIndex_tri_state
      [where casefold = ascii_fold and decLL = stub_decode_LatLng and z = "(''0'', ''0'')"
         and k = "''snappedPoints''" and pre = "[]" and post = "[]" and i = 0
         and xs = "[JObject [(''location'', JObject [(''lat'', JNumber ''1''), (''lng'', JNumber ''2'')]),
                     (''placeId'', JString ''p1'')]]"
         and resp = "fst (json_Decode_SnapToRoadResponse ascii_fold stub_decode_LatLng (''0'', ''0'')
                       body_interpolated \<lparr>SnapToRoadResponse.SnappedPoints = []\<rparr>)"
         and ms = "[(''location'', JObject [(''lat'', JNumber ''1''), (''lng'', JNumber ''2'')]),
                     (''placeId'', JString ''p1'')]"]
    by (simp add: body_interpolated_def exact_tags del: json_Decode_SnapToRoadResponse.simps)
  show "OriginalIndex (SnapToRoadResponse.SnappedPoints
       (fst (json_Decode_SnapToRoadResponse ascii_fold stub_decode_LatLng (''0'', ''0'')
          (Value (JObject [(''SnappedPoints'', JArray [JObject [(''ORIGINALINDEX'', JNumber ''0'')]])]))
          \<lparr>SnapToRoadResponse.SnappedPoints = []\<rparr>)) ! 0) = Some 0"
    using OriginalIndex_tri_state
      [where casefold = ascii_fold and decLL = stub_decode_LatLng and z = "(''0'', ''0'')"
         and k = "''SnappedPoints''" and pre = "[]" and post = "[]" and i = 0
         and xs = "[JObject [(''ORIGINALINDEX'', JNumber ''0'')]]"
         and resp = "fst (json_Decode_SnapToRoadResponse ascii_fold stub_decode_LatLng (''0'', ''0'')
                       (Value (JObject [(''SnappedPoints'', JArray [JObject [(''ORIGINALINDEX'', JNumber ''0'')]])]))
                       \<lparr>SnapToRoadResponse.SnappedPoints = []\<rparr>)"
         and front = "[]" and key = "''ORIGINALINDEX''" and behind = "[]"]
    by (simp add: folded_tags del: json_Decode_SnapToRoadResponse.simps)
qed

end
